theory Spec2Isabelle
  imports Main
begin

section \<open>Python values, exceptions and the HTTP environment\<close>

text \<open>
  The client talks to the provider through \<open>httpx\<close> (asynchronous client,
  \<open>PyNoeSmartmeter/client.py\<close>) or \<open>requests\<close> (synchronous client,
  \<open>noe_smartmeter/client.py\<close>). What \<open>response.json()\<close> returns is a Python value built
  from JSON; Python's \<open>None\<close> is \<open>JNull\<close>. A JSON number without fraction and exponent is a
  Python \<open>int\<close> (\<open>JNum\<close>), any other one a \<open>float\<close> (\<open>JFloat\<close>).
\<close>

text \<open>
  A \<open>float\<close>: the value \<open>m * 2 ^ e\<close>, an infinity or a NaN (\<open>json\<close> reads \<open>Infinity\<close> and
  \<open>NaN\<close> too). A Python number is an \<open>int\<close> or a \<open>float\<close>.
\<close>

datatype pyfloat = Finite int int | PosInf | NegInf | NaN

datatype pynum = PyInt int | PyFloat pyfloat

datatype json =
    JNull
  | JBool bool
  | JNum int
  | JFloat pyfloat
  | JStr string
  | JArr "json list"
  | JObj "(string \<times> json) list"

text \<open>
  The exceptions that the code raises itself or meets in the libraries.
  \<open>RequestError\<close> stands for any instance of \<open>httpx.RequestError\<close>, respectively
  \<open>requests.exceptions.RequestException\<close> (connection failure, timeout).
\<close>

text \<open>
  Modelled from the spec: \<open>errors.py\<close>, which declares \<open>SmartmeterLoginError\<close> and
  \<open>SmartmeterConnectionError\<close>, is not among the sources. Following the spec's error
  taxonomy (both are fatal and surfaced to the caller) they are exception classes of
  their own, subclasses neither of \<open>ValueError\<close> nor of the transport errors.
\<close>

datatype exn =
    SmartmeterLoginError
  | SmartmeterConnectionError int
  | RequestError
  | HTTPStatusError
  | ValueError
  | TypeError
  | AttributeError
  | KeyError
  | IndexError

type_synonym cookies = "(string \<times> string) list"

datatype body = BadJson | Json json

record response =
  status_code :: int
  body :: body
  set_cookies :: cookies

text \<open>
  A request names the URL, the cookies of the session object that issues it, and the
  query parameters (GET) or the credentials (POST; the asynchronous client sends them
  form-encoded with \<open>data=\<close>, the synchronous one as JSON with \<open>json=\<close>).
\<close>

datatype request =
    Get string cookies "(string \<times> json) list"
  | PostForm string cookies "(string \<times> string) list"
  | PostJson string cookies "(string \<times> string) list"

text \<open>
  The provider: the answer to the \<open>n\<close>-th request of a run (counting from 0) may depend on
  \<open>n\<close> and on the request. A request either raises in the transport (\<open>Inl\<close>; a request
  that exceeds the 30 s timeout raises too) or yields a response.
\<close>

type_synonym server = "nat \<Rightarrow> request \<Rightarrow> exn + response"

text \<open>
  The fields of a \<open>Smartmeter\<close> object, together with the two pieces of the environment it
  touches: the session file on disk and the requests sent so far. A session object
  (\<open>httpx.AsyncClient\<close>, \<open>requests.Session\<close>) is identified with its cookies; cookies
  that later responses might add to a live session are not tracked. The session file is
  either absent or holds the pickled cookies of a session.
\<close>

record state =
  supports_api :: json
  metering_point_id :: json
  account_id :: json
  session :: "cookies option"
  username :: string
  password :: string
  session_file :: "cookies option"
  sent :: "request list"

text \<open>
  The result of a method call: \<open>None\<close> when the call does not return, otherwise the
  exception raised or the value returned, with the state reached.
\<close>

type_synonym 'a outcome = "((exn + 'a) \<times> state) option"

definition send :: "server \<Rightarrow> request \<Rightarrow> state \<Rightarrow> (exn + response) \<times> state" where
  "send srv rq s = (srv (length (sent s)) rq, s\<lparr>sent := sent s @ [rq]\<rparr>)"

definition AUTH_URL :: string where
  "AUTH_URL = ''https://smartmeter.netz-noe.at/orchestration/Authentication/Login''"

definition API_BASE_URL :: string where
  "API_BASE_URL = ''https://smartmeter.netz-noe.at/orchestration''"

definition API_USER_DETAILS_URL :: string where
  "API_USER_DETAILS_URL = API_BASE_URL @ ''/User/GetBasicInfo''"

definition API_ACCOUNTING_DETAILS_URL :: string where
  "API_ACCOUNTING_DETAILS_URL = API_BASE_URL @ ''/User/GetAccountIdByBussinespartnerId''"

definition API_METER_DETAILS_URL :: string where
  "API_METER_DETAILS_URL = API_BASE_URL @ ''/User/GetMeteringPointByAccountId''"

definition API_CONSUMPTION_URL :: string where
  "API_CONSUMPTION_URL = API_BASE_URL @ ''/ConsumptionRecord''"

section \<open>The asynchronous client: session store and authenticator\<close>

definition init :: "string \<Rightarrow> string \<Rightarrow> cookies option \<Rightarrow> state" where
  "init user pwd file =
     \<lparr>supports_api = JBool False, metering_point_id = JNull, account_id = JNull,
      session = None, username = user, password = pwd,
      session_file = file, sent = []\<rparr>"

definition clear_stored_session :: "state \<Rightarrow> state" where
  "clear_stored_session s =
     (if session_file s \<noteq> None then s\<lparr>session_file := None\<rparr> else s)"

definition save_session :: "cookies \<Rightarrow> state \<Rightarrow> state" where
  "save_session c s = s\<lparr>session_file := Some c\<rparr>"

text \<open>\<open>_check_session\<close>: the handler catches \<open>TypeError\<close> and nothing else.\<close>

definition check_session :: "server \<Rightarrow> cookies \<Rightarrow> state \<Rightarrow> (exn + bool) \<times> state" where
  "check_session srv c s =
     (case send srv (Get API_USER_DETAILS_URL c []) s of
        (Inl e, s1) \<Rightarrow> if e = TypeError then (Inr False, s1) else (Inl e, s1)
      | (Inr r, s1) \<Rightarrow> (Inr (status_code r = 200), s1))"

definition load_check_session :: "server \<Rightarrow> state \<Rightarrow> (exn + bool) \<times> state" where
  "load_check_session srv s =
     (case session_file s of
        None \<Rightarrow> (Inr False, s)
      | Some c \<Rightarrow>
          (case check_session srv c s of
             (Inl e, s1) \<Rightarrow> (Inl e, s1)
           | (Inr ok, s1) \<Rightarrow>
               if ok then (Inr True, s1\<lparr>session := Some c\<rparr>) else (Inr False, s1)))"

definition authenticate ::
  "server \<Rightarrow> string option \<Rightarrow> string option \<Rightarrow> state \<Rightarrow> (exn + bool) \<times> state" where
  "authenticate srv user pwd s =
     (let s1 = (case user of None \<Rightarrow> s
                | Some u \<Rightarrow> clear_stored_session (s\<lparr>username := u\<rparr>));
          s2 = (case pwd of None \<Rightarrow> s1
                | Some p \<Rightarrow> clear_stored_session (s1\<lparr>password := p\<rparr>))
      in case load_check_session srv s2 of
           (Inl e, s3) \<Rightarrow> (Inl e, s3)
         | (Inr ok, s3) \<Rightarrow>
             if ok then (Inr True, s3)
             else
               (case send srv (PostForm AUTH_URL []
                                 [(''user'', username s3), (''pwd'', password s3)]) s3 of
                  (Inl e, s4) \<Rightarrow> (Inl e, s4)
                | (Inr r, s4) \<Rightarrow>
                    if status_code r = 200 then
                      (Inr True, (save_session (set_cookies r) s4)
                                   \<lparr>session := Some (set_cookies r)\<rparr>)
                    else if status_code r = 401 then (Inl SmartmeterLoginError, s4)
                    else (Inl (SmartmeterConnectionError (status_code r)), s4)))"

section \<open>The asynchronous client: API caller\<close>

text \<open>
  The \<open>while retry_count < 1\<close> loop of \<open>_call_api\<close>. Falling off the end of the loop
  returns \<open>None\<close>, here \<open>Inr None\<close>. A loop that never exits has no outcome.
\<close>

partial_function (option) call_api_loop ::
  "server \<Rightarrow> string \<Rightarrow> (string \<times> json) list \<Rightarrow> int \<Rightarrow> state \<Rightarrow> response option outcome" where
  "call_api_loop srv url params retry_count s =
     (if retry_count < 1 then
        (case session s of
           None \<Rightarrow> Some (Inl AttributeError, s)
         | Some c \<Rightarrow>
             (case send srv (Get url c params) s of
                (Inl e, s1) \<Rightarrow> Some (Inl e, s1)
              | (Inr r, s1) \<Rightarrow>
                  if status_code r = 401 then
                    (case authenticate srv None None s1 of
                       (Inl e, s2) \<Rightarrow> Some (Inl e, s2)
                     | (Inr _, s2) \<Rightarrow> call_api_loop srv url params (retry_count + 1) s2)
                  else if status_code r = 200 then Some (Inr (Some r), s1)
                  else call_api_loop srv url params retry_count s1))
      else Some (Inr None, s))"

definition call_api ::
  "server \<Rightarrow> string \<Rightarrow> (string \<times> json) list \<Rightarrow> state \<Rightarrow> response option outcome" where
  "call_api srv url params s =
     (case session s of
        None \<Rightarrow>
          (case authenticate srv None None s of
             (Inl e, s1) \<Rightarrow> Some (Inl e, s1)
           | (Inr _, s1) \<Rightarrow> call_api_loop srv url params 0 s1)
      | Some _ \<Rightarrow> call_api_loop srv url params 0 s)"

declare call_api_loop.simps [code]

section \<open>Python operations on parsed JSON\<close>

text \<open>Truth value of a Python object, and \<open>a and b\<close>, which returns one of its operands.\<close>

fun truthy :: "json \<Rightarrow> bool" where
  "truthy JNull = False"
| "truthy (JBool b) = b"
| "truthy (JNum n) = (n \<noteq> 0)"
| "truthy (JFloat x) = (case x of Finite m e \<Rightarrow> m \<noteq> 0 | _ \<Rightarrow> True)"
| "truthy (JStr t) = (t \<noteq> [])"
| "truthy (JArr xs) = (xs \<noteq> [])"
| "truthy (JObj kvs) = (kvs \<noteq> [])"

definition py_and :: "json \<Rightarrow> json \<Rightarrow> json" where
  "py_and a b = (if truthy a then b else a)"

text \<open>
  \<open>response.json()\<close>: the caller's \<open>None\<close> has no attribute \<open>json\<close>; a body that is
  not JSON raises a \<open>ValueError\<close> (\<open>json.JSONDecodeError\<close>).
\<close>

definition response_json :: "response option \<Rightarrow> exn + json" where
  "response_json response =
     (case response of
        None \<Rightarrow> Inl AttributeError
      | Some r \<Rightarrow> (case body r of BadJson \<Rightarrow> Inl ValueError | Json j \<Rightarrow> Inr j))"

text \<open>\<open>x[0]\<close>: the keys of a parsed JSON object are strings, so \<open>0\<close> is never among them.\<close>

fun py_first :: "json \<Rightarrow> exn + json" where
  "py_first (JArr []) = Inl IndexError"
| "py_first (JArr (x # xs)) = Inr x"
| "py_first (JStr []) = Inl IndexError"
| "py_first (JStr (c # cs)) = Inr (JStr [c])"
| "py_first (JObj kvs) = Inl KeyError"
| "py_first JNull = Inl TypeError"
| "py_first (JBool b) = Inl TypeError"
| "py_first (JNum n) = Inl TypeError"
| "py_first (JFloat x) = Inl TypeError"

text \<open>\<open>x["key"]\<close>: only a dict can be subscripted with a string.\<close>

fun py_getitem :: "json \<Rightarrow> string \<Rightarrow> exn + json" where
  "py_getitem (JObj kvs) k = (case map_of kvs k of None \<Rightarrow> Inl KeyError | Some v \<Rightarrow> Inr v)"
| "py_getitem JNull k = Inl TypeError"
| "py_getitem (JBool b) k = Inl TypeError"
| "py_getitem (JNum n) k = Inl TypeError"
| "py_getitem (JFloat x) k = Inl TypeError"
| "py_getitem (JStr t) k = Inl TypeError"
| "py_getitem (JArr xs) k = Inl TypeError"

text \<open>Iteration, as \<open>zip\<close> does it: lists, the characters of a string, the keys of a dict.\<close>

fun py_iter :: "json \<Rightarrow> exn + json list" where
  "py_iter (JArr xs) = Inr xs"
| "py_iter (JStr t) = Inr (map (\<lambda>c. JStr [c]) t)"
| "py_iter (JObj kvs) = Inr (map (\<lambda>kv. JStr (fst kv)) kvs)"
| "py_iter JNull = Inl TypeError"
| "py_iter (JBool b) = Inl TypeError"
| "py_iter (JNum n) = Inl TypeError"
| "py_iter (JFloat x) = Inl TypeError"

text \<open>A consumption series: the pairs that \<open>list(zip(times, values))\<close> builds.\<close>

type_synonym series = "(json \<times> json) list"

definition zip_series :: "json \<Rightarrow> string \<Rightarrow> string \<Rightarrow> exn + series" where
  "zip_series data times_key values_key =
     (case py_getitem data times_key of
        Inl e \<Rightarrow> Inl e
      | Inr peak_times \<Rightarrow>
          (case py_getitem data values_key of
             Inl e \<Rightarrow> Inl e
           | Inr vals \<Rightarrow>
               (case py_iter peak_times of
                  Inl e \<Rightarrow> Inl e
                | Inr ts \<Rightarrow>
                    (case py_iter vals of
                       Inl e \<Rightarrow> Inl e
                     | Inr vs \<Rightarrow> Inr (zip ts vs)))))"

text \<open>\<open>response.json()[0]\<close>.\<close>

definition json_first :: "response option \<Rightarrow> exn + json" where
  "json_first response =
     (case response_json response of Inl e \<Rightarrow> Inl e | Inr j \<Rightarrow> py_first j)"

definition raise_for_status :: "response option \<Rightarrow> exn + unit" where
  "raise_for_status response =
     (case response of
        None \<Rightarrow> Inl AttributeError
      | Some r \<Rightarrow>
          if 400 \<le> status_code r \<and> status_code r < 600 then Inl HTTPStatusError
          else Inr ())"

section \<open>The asynchronous client: resource accessors\<close>

definition get_user_details :: "server \<Rightarrow> state \<Rightarrow> json outcome" where
  "get_user_details srv s =
     (case call_api srv (API_USER_DETAILS_URL @ ''?context=2'') [] s of
        None \<Rightarrow> None
      | Some (Inl e, s1) \<Rightarrow> Some (Inl e, s1)
      | Some (Inr response, s1) \<Rightarrow> Some (json_first response, s1))"

text \<open>The four sub-flags of the accounting entry, combined with \<open>and\<close>.\<close>

definition capability :: "json \<Rightarrow> exn + json" where
  "capability entry =
     (case py_getitem entry ''hasSmartMeter'' of
        Inl e \<Rightarrow> Inl e
      | Inr has_smartmeter \<Rightarrow>
          (case py_getitem entry ''hasElectricity'' of
             Inl e \<Rightarrow> Inl e
           | Inr has_electricity \<Rightarrow>
               (case py_getitem entry ''hasCommunicative'' of
                  Inl e \<Rightarrow> Inl e
                | Inr has_communicative \<Rightarrow>
                    (case py_getitem entry ''hasActive'' of
                       Inl e \<Rightarrow> Inl e
                     | Inr has_active \<Rightarrow>
                         Inr (py_and has_smartmeter
                               (py_and has_electricity
                                 (py_and has_communicative has_active)))))))"

definition get_accounting_details :: "server \<Rightarrow> state \<Rightarrow> json outcome" where
  "get_accounting_details srv s =
     (case call_api srv (API_ACCOUNTING_DETAILS_URL @ ''?context=2'') [] s of
        None \<Rightarrow> None
      | Some (Inl e, s1) \<Rightarrow> Some (Inl e, s1)
      | Some (Inr response, s1) \<Rightarrow>
          (case json_first response of
             Inl e \<Rightarrow> Some (Inl e, s1)
           | Inr entry \<Rightarrow>
               (case capability entry of
                  Inl e \<Rightarrow> Some (Inl e, s1)
                | Inr flag \<Rightarrow>
                    (case py_getitem entry ''accountId'' of
                       Inl e \<Rightarrow> Some (Inl e, s1\<lparr>supports_api := flag\<rparr>)
                     | Inr a \<Rightarrow>
                         Some (Inr entry, s1\<lparr>supports_api := flag, account_id := a\<rparr>)))))"

text \<open>
  \<open>"..." + (self._account_id or "")\<close>: a falsy account id gives the empty string, and
  only a string can be appended to a string.
\<close>

definition account_suffix :: "json \<Rightarrow> exn + string" where
  "account_suffix a =
     (if truthy a then (case a of JStr t \<Rightarrow> Inr t | _ \<Rightarrow> Inl TypeError) else Inr [])"

definition get_meter_details :: "server \<Rightarrow> state \<Rightarrow> json outcome" where
  "get_meter_details srv s =
     (case (if account_id s = JNull then get_accounting_details srv s
            else Some (Inr JNull, s)) of
        None \<Rightarrow> None
      | Some (Inl e, s1) \<Rightarrow> Some (Inl e, s1)
      | Some (Inr _, s1) \<Rightarrow>
          (case account_suffix (account_id s1) of
             Inl e \<Rightarrow> Some (Inl e, s1)
           | Inr suffix \<Rightarrow>
               (case call_api srv
                       (API_METER_DETAILS_URL @ ''?context=2&accountId='' @ suffix) [] s1 of
                  None \<Rightarrow> None
                | Some (Inl e, s2) \<Rightarrow> Some (Inl e, s2)
                | Some (Inr response, s2) \<Rightarrow>
                    (case json_first response of
                       Inl e \<Rightarrow> Some (Inl e, s2)
                     | Inr entry \<Rightarrow>
                         (case py_getitem entry ''meteringPointId'' of
                            Inl e \<Rightarrow> Some (Inl e, s2)
                          | Inr m \<Rightarrow>
                              Some (Inr entry, s2\<lparr>metering_point_id := m\<rparr>))))))"

text \<open>
  The handler of the consumption accessors, \<open>except (httpx.RequestError, ValueError)\<close>:
  these two are turned into the empty series, any other exception passes.
\<close>

definition on_error :: "exn \<Rightarrow> state \<Rightarrow> series outcome" where
  "on_error e s =
     (if e = RequestError \<or> e = ValueError then Some (Inr [], s) else Some (Inl e, s))"

text \<open>The lookup of the meter before the \<open>try\<close> block of each consumption accessor.\<close>

definition ensure_metering_point :: "server \<Rightarrow> state \<Rightarrow> json outcome" where
  "ensure_metering_point srv s =
     (if metering_point_id s = JNull then get_meter_details srv s else Some (Inr JNull, s))"

definition get_consumption_per_day :: "server \<Rightarrow> string \<Rightarrow> state \<Rightarrow> series outcome" where
  "get_consumption_per_day srv day s =
     (case ensure_metering_point srv s of
        None \<Rightarrow> None
      | Some (Inl e, s1) \<Rightarrow> Some (Inl e, s1)
      | Some (Inr _, s1) \<Rightarrow>
          (case call_api srv (API_CONSUMPTION_URL @ ''/Day'')
                  [(''meterId'', metering_point_id s1), (''day'', JStr day)] s1 of
             None \<Rightarrow> None
           | Some (Inl e, s2) \<Rightarrow> on_error e s2
           | Some (Inr response, s2) \<Rightarrow>
               (case json_first response of
                  Inl e \<Rightarrow> on_error e s2
                | Inr data \<Rightarrow>
                    (case zip_series data ''peakDemandTimes'' ''meteredValues'' of
                       Inl e \<Rightarrow> on_error e s2
                     | Inr consumption_per_day \<Rightarrow> Some (Inr consumption_per_day, s2)))))"

definition get_consumption_for_month ::
  "server \<Rightarrow> int \<Rightarrow> int \<Rightarrow> state \<Rightarrow> series outcome" where
  "get_consumption_for_month srv year month s =
     (case ensure_metering_point srv s of
        None \<Rightarrow> None
      | Some (Inl e, s1) \<Rightarrow> Some (Inl e, s1)
      | Some (Inr _, s1) \<Rightarrow>
          (case call_api srv (API_CONSUMPTION_URL @ ''/Month'')
                  [(''meterId'', metering_point_id s1), (''year'', JNum year),
                   (''month'', JNum month)] s1 of
             None \<Rightarrow> None
           | Some (Inl e, s2) \<Rightarrow> on_error e s2
           | Some (Inr response, s2) \<Rightarrow>
               (case json_first response of
                  Inl e \<Rightarrow> on_error e s2
                | Inr data \<Rightarrow>
                    (case zip_series data ''peakDemandTimes'' ''meteredValues'' of
                       Inl e \<Rightarrow> on_error e s2
                     | Inr consumption_for_month \<Rightarrow>
                         Some (Inr consumption_for_month, s2)))))"

definition get_consumption_for_year :: "server \<Rightarrow> int \<Rightarrow> state \<Rightarrow> series outcome" where
  "get_consumption_for_year srv year s =
     (case ensure_metering_point srv s of
        None \<Rightarrow> None
      | Some (Inl e, s1) \<Rightarrow> Some (Inl e, s1)
      | Some (Inr _, s1) \<Rightarrow>
          (case call_api srv (API_CONSUMPTION_URL @ ''/Year'')
                  [(''meterId'', metering_point_id s1), (''year'', JNum year)] s1 of
             None \<Rightarrow> None
           | Some (Inl e, s2) \<Rightarrow> on_error e s2
           | Some (Inr response, s2) \<Rightarrow>
               (case raise_for_status response of
                  Inl e \<Rightarrow> on_error e s2
                | Inr _ \<Rightarrow>
                    (case json_first response of
                       Inl e \<Rightarrow> on_error e s2
                     | Inr data \<Rightarrow>
                         (case zip_series data ''peakDemandTimes'' ''values'' of
                            Inl e \<Rightarrow> on_error e s2
                          | Inr consumption_for_year \<Rightarrow>
                              Some (Inr consumption_for_year, s2))))))"

section \<open>The synchronous client\<close>

text \<open>
  \<open>noe_smartmeter/client.py\<close>, on the same state: its session file holds the pickled
  session object, again identified with the cookies.
\<close>

text \<open>The first half of \<open>_authenticate\<close>: the local \<open>session\<close> after the cached one is tried.\<close>

definition cached_session_sync :: "server \<Rightarrow> state \<Rightarrow> (exn + cookies option) \<times> state" where
  "cached_session_sync srv s =
     (case session_file s of
        None \<Rightarrow> (Inr None, s)
      | Some c \<Rightarrow>
          (case send srv (Get API_USER_DETAILS_URL c []) s of
             (Inl e, s1) \<Rightarrow> (Inl e, s1)
           | (Inr r, s1) \<Rightarrow> (Inr (if status_code r \<noteq> 200 then None else Some c), s1)))"

definition authenticate_sync ::
  "server \<Rightarrow> string \<Rightarrow> string \<Rightarrow> state \<Rightarrow> (exn + unit) \<times> state" where
  "authenticate_sync srv user pwd s =
     (case cached_session_sync srv s of
        (Inl e, s1) \<Rightarrow> (Inl e, s1)
      | (Inr (Some c), s1) \<Rightarrow> (Inr (), s1\<lparr>session := Some c\<rparr>)
      | (Inr None, s1) \<Rightarrow>
          (case send srv (PostJson AUTH_URL [] [(''user'', user), (''pwd'', pwd)]) s1 of
             (Inl e, s2) \<Rightarrow> (Inl e, s2)
           | (Inr r, s2) \<Rightarrow>
               if status_code r = 200 then
                 (Inr (), s2\<lparr>session_file := Some (set_cookies r),
                             session := Some (set_cookies r)\<rparr>)
               else if status_code r = 401 then (Inl SmartmeterLoginError, s2)
               else (Inl (SmartmeterConnectionError (status_code r)), s2)))"

partial_function (option) call_api_loop_sync ::
  "server \<Rightarrow> string \<Rightarrow> (string \<times> json) list \<Rightarrow> int \<Rightarrow> state \<Rightarrow> response option outcome" where
  "call_api_loop_sync srv url params retry_count s =
     (if retry_count < 1 then
        (case session s of
           None \<Rightarrow> Some (Inl AttributeError, s)
         | Some c \<Rightarrow>
             (case send srv (Get url c params) s of
                (Inl e, s1) \<Rightarrow> Some (Inl e, s1)
              | (Inr r, s1) \<Rightarrow>
                  if status_code r = 401 then
                    (case authenticate_sync srv (username s1) (password s1) s1 of
                       (Inl e, s2) \<Rightarrow> Some (Inl e, s2)
                     | (Inr _, s2) \<Rightarrow> call_api_loop_sync srv url params (retry_count + 1) s2)
                  else if status_code r = 200 then Some (Inr (Some r), s1)
                  else call_api_loop_sync srv url params retry_count s1))
      else Some (Inr None, s))"

declare call_api_loop_sync.simps [code]

definition call_api_sync ::
  "server \<Rightarrow> string \<Rightarrow> (string \<times> json) list \<Rightarrow> state \<Rightarrow> response option outcome" where
  "call_api_sync srv url params s = call_api_loop_sync srv url params 0 s"

definition get_user_details_sync :: "server \<Rightarrow> state \<Rightarrow> json outcome" where
  "get_user_details_sync srv s =
     (case call_api_sync srv (API_USER_DETAILS_URL @ ''?context=2'') [] s of
        None \<Rightarrow> None
      | Some (Inl e, s1) \<Rightarrow> Some (Inl e, s1)
      | Some (Inr response, s1) \<Rightarrow> Some (json_first response, s1))"

text \<open>\<open>'...&accountId=' + account_id\<close>: only a string can be appended.\<close>

definition get_meter_details_sync :: "server \<Rightarrow> json \<Rightarrow> state \<Rightarrow> json outcome" where
  "get_meter_details_sync srv account s =
     (case account of
        JStr a \<Rightarrow>
          (case call_api_sync srv (API_METER_DETAILS_URL @ ''?context=2&accountId='' @ a) [] s of
             None \<Rightarrow> None
           | Some (Inl e, s1) \<Rightarrow> Some (Inl e, s1)
           | Some (Inr response, s1) \<Rightarrow> Some (json_first response, s1))
      | _ \<Rightarrow> Some (Inl TypeError, s))"

definition get_accounting_details_sync :: "server \<Rightarrow> state \<Rightarrow> json outcome" where
  "get_accounting_details_sync srv s =
     (case call_api_sync srv (API_ACCOUNTING_DETAILS_URL @ ''?context=2'') [] s of
        None \<Rightarrow> None
      | Some (Inl e, s1) \<Rightarrow> Some (Inl e, s1)
      | Some (Inr response, s1) \<Rightarrow> Some (json_first response, s1))"

definition retrieve_user_data :: "server \<Rightarrow> state \<Rightarrow> unit outcome" where
  "retrieve_user_data srv s =
     (case get_accounting_details_sync srv s of
        None \<Rightarrow> None
      | Some (Inl e, s1) \<Rightarrow> Some (Inl e, s1)
      | Some (Inr accounting_details, s1) \<Rightarrow>
          (case py_getitem accounting_details ''accountId'' of
             Inl e \<Rightarrow> Some (Inl e, s1)
           | Inr a \<Rightarrow>
               (case get_meter_details_sync srv a s1 of
                  None \<Rightarrow> None
                | Some (Inl e, s2) \<Rightarrow> Some (Inl e, s2)
                | Some (Inr meter_details, s2) \<Rightarrow>
                    (case capability accounting_details of
                       Inl e \<Rightarrow> Some (Inl e, s2)
                     | Inr flag \<Rightarrow>
                         (case py_getitem meter_details ''meteringPointId'' of
                            Inl e \<Rightarrow> Some (Inl e, s2\<lparr>supports_api := flag\<rparr>)
                          | Inr m \<Rightarrow>
                              Some (Inr (), s2\<lparr>supports_api := flag, metering_point_id := m,
                                                account_id := a\<rparr>))))))"

text \<open>The constructor: it logs in and fetches the account data before it returns.\<close>

definition init_sync :: "server \<Rightarrow> string \<Rightarrow> string \<Rightarrow> cookies option \<Rightarrow> unit outcome" where
  "init_sync srv user pwd file =
     (case authenticate_sync srv user pwd (init user pwd file) of
        (Inl e, s1) \<Rightarrow> Some (Inl e, s1)
      | (Inr _, s1) \<Rightarrow> retrieve_user_data srv s1)"

text \<open>
  The handler \<open>except (requests.exceptions.RequestException, ValueError)\<close>; the
  \<open>HTTPError\<close> of \<open>raise_for_status\<close> is a \<open>RequestException\<close> in \<open>requests\<close>.
\<close>

definition on_error_sync :: "exn \<Rightarrow> state \<Rightarrow> series outcome" where
  "on_error_sync e s =
     (if e = RequestError \<or> e = HTTPStatusError \<or> e = ValueError then Some (Inr [], s)
      else Some (Inl e, s))"

definition get_consumption_per_day_sync :: "server \<Rightarrow> string \<Rightarrow> state \<Rightarrow> series outcome" where
  "get_consumption_per_day_sync srv day s =
     (case call_api_sync srv (API_CONSUMPTION_URL @ ''/Day'')
             [(''meterId'', metering_point_id s), (''day'', JStr day)] s of
        None \<Rightarrow> None
      | Some (Inl e, s1) \<Rightarrow> on_error_sync e s1
      | Some (Inr response, s1) \<Rightarrow>
          (case response_json response of
             Inl e \<Rightarrow> on_error_sync e s1
           | Inr data \<Rightarrow>
               (case zip_series data ''peakDemandTimes'' ''meteredValues'' of
                  Inl e \<Rightarrow> on_error_sync e s1
                | Inr consumption_per_day \<Rightarrow> Some (Inr consumption_per_day, s1))))"

definition get_consumption_for_month_sync ::
  "server \<Rightarrow> int \<Rightarrow> int \<Rightarrow> state \<Rightarrow> series outcome" where
  "get_consumption_for_month_sync srv year month s =
     (case call_api_sync srv (API_CONSUMPTION_URL @ ''/Month'')
             [(''meterId'', metering_point_id s), (''year'', JNum year),
              (''month'', JNum month)] s of
        None \<Rightarrow> None
      | Some (Inl e, s1) \<Rightarrow> on_error_sync e s1
      | Some (Inr response, s1) \<Rightarrow>
          (case response_json response of
             Inl e \<Rightarrow> on_error_sync e s1
           | Inr data \<Rightarrow>
               (case zip_series data ''peakDemandTimes'' ''meteredValues'' of
                  Inl e \<Rightarrow> on_error_sync e s1
                | Inr consumption_for_month \<Rightarrow> Some (Inr consumption_for_month, s1))))"

definition get_consumption_for_year_sync :: "server \<Rightarrow> int \<Rightarrow> state \<Rightarrow> series outcome" where
  "get_consumption_for_year_sync srv year s =
     (case call_api_sync srv (API_CONSUMPTION_URL @ ''/Year'')
             [(''meterId'', metering_point_id s), (''year'', JNum year)] s of
        None \<Rightarrow> None
      | Some (Inl e, s1) \<Rightarrow> on_error_sync e s1
      | Some (Inr response, s1) \<Rightarrow>
          (case raise_for_status response of
             Inl e \<Rightarrow> on_error_sync e s1
           | Inr _ \<Rightarrow>
               (case response_json response of
                  Inl e \<Rightarrow> on_error_sync e s1
                | Inr data \<Rightarrow>
                    (case zip_series data ''peakDemandTimes'' ''values'' of
                       Inl e \<Rightarrow> on_error_sync e s1
                     | Inr consumption_for_year \<Rightarrow> Some (Inr consumption_for_year, s1)))))"

section \<open>Dates and times\<close>

text \<open>\<open>datetime.date\<close> and \<open>datetime.datetime\<close> (naive, microsecond 0 throughout).\<close>

record date =
  year :: int
  month :: int
  day :: int

record datetime = date +
  hour :: int
  minute :: int
  second :: int

definition date_of :: "datetime \<Rightarrow> date" where
  "date_of d = \<lparr>year = year d, month = month d, day = day d\<rparr>"

text \<open>\<open>a < b\<close> on datetimes compares the fields from the year down.\<close>

definition datetime_less :: "datetime \<Rightarrow> datetime \<Rightarrow> bool" where
  "datetime_less a b =
     (year a < year b \<or> (year a = year b \<and>
       (month a < month b \<or> (month a = month b \<and>
         (day a < day b \<or> (day a = day b \<and>
           (hour a < hour b \<or> (hour a = hour b \<and>
             (minute a < minute b \<or> (minute a = minute b \<and>
               second a < second b))))))))))"

section \<open>The Python library\<close>

text \<open>
  What the aggregator takes from Python itself is a parameter of the model, and nothing
  is assumed about it:
  \<^item> \<open>strptime t fmt\<close> is \<open>datetime.datetime.strptime(t, fmt)\<close> on a string \<open>t\<close>, with the
    \<open>ValueError\<close> of a string that does not match;
  \<^item> \<open>strftime d fmt\<close> is \<open>d.strftime(fmt)\<close> of a date (of the date of a datetime, where
    the format names no time of day);
  \<^item> \<open>number_add a b\<close> is \<open>a + b\<close> on numbers: exact on \<open>int\<close>s, rounded on \<open>float\<close>s, an
    \<open>OverflowError\<close> for an \<open>int\<close> beyond the range of \<open>float\<close> added to a \<open>float\<close>;
  \<^item> \<open>number_sum xs\<close> is the builtin \<open>sum(xs)\<close> on numbers, which starts from the
    \<open>int\<close> 0 and, from Python 3.12 on, adds \<open>float\<close>s with a compensated summation.
\<close>

record library =
  strptime :: "string \<Rightarrow> string \<Rightarrow> exn + datetime"
  strftime :: "date \<Rightarrow> string \<Rightarrow> string"
  number_add :: "pynum \<Rightarrow> pynum \<Rightarrow> exn + pynum"
  number_sum :: "pynum list \<Rightarrow> exn + pynum"

section \<open>Summation over series\<close>

text \<open>
  The numbers among the Python values: \<open>int\<close>, \<open>float\<close> and \<open>bool\<close> (\<open>True\<close> and \<open>False\<close> are
  the \<open>int\<close>s 1 and 0 in arithmetic).
\<close>

fun is_number :: "json \<Rightarrow> bool" where
  "is_number (JNum n) = True"
| "is_number (JFloat x) = True"
| "is_number (JBool b) = True"
| "is_number JNull = False"
| "is_number (JStr t) = False"
| "is_number (JArr xs) = False"
| "is_number (JObj kvs) = False"

fun numeric :: "json \<Rightarrow> pynum" where
  "numeric (JNum n) = PyInt n"
| "numeric (JFloat x) = PyFloat x"
| "numeric (JBool b) = PyInt (if b then 1 else 0)"
| "numeric JNull = PyInt 0"
| "numeric (JStr t) = PyInt 0"
| "numeric (JArr xs) = PyInt 0"
| "numeric (JObj kvs) = PyInt 0"

definition json_of_number :: "pynum \<Rightarrow> json" where
  "json_of_number a = (case a of PyInt n \<Rightarrow> JNum n | PyFloat x \<Rightarrow> JFloat x)"

text \<open>
  \<open>acc + v\<close> for an element \<open>v\<close> of a response: a number is added, everything else,
  \<open>None\<close> included, is a \<open>TypeError\<close>.
\<close>

definition py_add :: "library \<Rightarrow> pynum \<Rightarrow> json \<Rightarrow> exn + pynum" where
  "py_add lib acc v = (if is_number v then number_add lib acc (numeric v) else Inl TypeError)"

text \<open>\<open>strptime(time, "%Y-%m-%dT%H:%M:%S")\<close> on an element of a response: anything but a
  string is a \<open>TypeError\<close>.\<close>

fun strptime_iso :: "library \<Rightarrow> json \<Rightarrow> exn + datetime" where
  "strptime_iso lib (JStr t) = strptime lib t ''%Y-%m-%dT%H:%M:%S''"
| "strptime_iso lib JNull = Inl TypeError"
| "strptime_iso lib (JBool b) = Inl TypeError"
| "strptime_iso lib (JNum n) = Inl TypeError"
| "strptime_iso lib (JFloat x) = Inl TypeError"
| "strptime_iso lib (JArr xs) = Inl TypeError"
| "strptime_iso lib (JObj kvs) = Inl TypeError"

text \<open>
  The loop over the day series:
  \<^verbatim>\<open>for time, consumption in day_data:
    formatted_time = datetime.datetime.strptime(time, "%Y-%m-%dT%H:%M:%S")
    if formatted_time > input_date:
        energy_sum += consumption\<close>
\<close>

fun day_loop :: "library \<Rightarrow> datetime \<Rightarrow> series \<Rightarrow> pynum \<Rightarrow> exn + pynum" where
  "day_loop lib input_date [] energy_sum = Inr energy_sum"
| "day_loop lib input_date ((time, consumption) # rest) energy_sum =
     (case strptime_iso lib time of
        Inl e \<Rightarrow> Inl e
      | Inr formatted_time \<Rightarrow>
          if datetime_less input_date formatted_time then
            (case py_add lib energy_sum consumption of
               Inl e \<Rightarrow> Inl e
             | Inr energy_sum' \<Rightarrow> day_loop lib input_date rest energy_sum')
          else day_loop lib input_date rest energy_sum)"

text \<open>
  The builtin \<open>sum\<close> on Python values taken one by one from a generator: the first value
  that is no number is a \<open>TypeError\<close>, unless the numbers before it have already raised.
\<close>

definition py_sum :: "library \<Rightarrow> json list \<Rightarrow> exn + pynum" where
  "py_sum lib vs =
     (if list_all is_number vs then number_sum lib (map numeric vs)
      else
        (case number_sum lib (map numeric (takeWhile is_number vs)) of
           Inl e \<Rightarrow> Inl e
         | Inr _ \<Rightarrow> Inl TypeError))"

text \<open>\<open>sum(value[1] for value in xs if value[1] is not None)\<close>.\<close>

definition sum_not_none :: "library \<Rightarrow> series \<Rightarrow> exn + pynum" where
  "sum_not_none lib xs = py_sum lib [snd value. value \<leftarrow> xs, snd value \<noteq> JNull]"

text \<open>\<open>energy_sum += sum(value[1] for value in xs if value[1] is not None)\<close>.\<close>

definition add_sum_not_none :: "library \<Rightarrow> pynum \<Rightarrow> series \<Rightarrow> exn + pynum" where
  "add_sum_not_none lib energy_sum xs =
     (case sum_not_none lib xs of
        Inl e \<Rightarrow> Inl e
      | Inr s \<Rightarrow> number_add lib energy_sum s)"

text \<open>
  Python slices \<open>xs[start:stop]\<close> and \<open>xs[start:]\<close>: a negative bound counts from the
  end, and every bound is clipped to the list.
\<close>

definition slice_index :: "nat \<Rightarrow> int \<Rightarrow> nat" where
  "slice_index n i = (if i < 0 then nat (max (int n + i) 0) else min (nat i) n)"

definition py_slice :: "'a list \<Rightarrow> int \<Rightarrow> int \<Rightarrow> 'a list" where
  "py_slice xs start stop =
     (let lo = slice_index (length xs) start; hi = slice_index (length xs) stop
      in take (hi - lo) (drop lo xs))"

definition py_slice_from :: "'a list \<Rightarrow> int \<Rightarrow> 'a list" where
  "py_slice_from xs start = drop (slice_index (length xs) start) xs"

section \<open>The asynchronous client: consumption aggregator\<close>

text \<open>The loop over the years after the input's year.\<close>

fun years_loop :: "library \<Rightarrow> server \<Rightarrow> int list \<Rightarrow> pynum \<Rightarrow> state \<Rightarrow> pynum outcome" where
  "years_loop lib srv [] energy_sum s = Some (Inr energy_sum, s)"
| "years_loop lib srv (y # ys) energy_sum s =
     (case get_consumption_for_year srv y s of
        None \<Rightarrow> None
      | Some (Inl e, s1) \<Rightarrow> Some (Inl e, s1)
      | Some (Inr year_values, s1) \<Rightarrow>
          (case add_sum_not_none lib energy_sum year_values of
             Inl e \<Rightarrow> Some (Inl e, s1)
           | Inr energy_sum' \<Rightarrow> years_loop lib srv ys energy_sum' s1))"

definition result_dict :: "string \<Rightarrow> pynum \<Rightarrow> json" where
  "result_dict timestamp consumption =
     JObj [(''timestamp'', JStr timestamp), (''consumption'', json_of_number consumption)]"

definition start_year :: "datetime \<Rightarrow> date \<Rightarrow> int" where
  "start_year input_date current_date =
     (if year input_date + 1 \<le> year current_date then year input_date + 1
      else year input_date)"

definition end_index :: "datetime \<Rightarrow> date \<Rightarrow> int" where
  "end_index input_date current_date =
     (if year input_date = year current_date then month current_date - 1 else 12)"

text \<open>
  \<open>get_consumption_since_date\<close>; \<open>current_date\<close> is what \<open>datetime.date.today()\<close>
  returns, \<open>offset\<close> a number.
\<close>

definition get_consumption_since_date ::
  "library \<Rightarrow> server \<Rightarrow> date \<Rightarrow> string \<Rightarrow> pynum \<Rightarrow> state \<Rightarrow> json outcome" where
  "get_consumption_since_date lib srv current_date input_date_string offset s =
     (case strptime lib input_date_string ''%d.%m.%Y %H:%M'' of
        Inl e \<Rightarrow> Some (Inl e, s)
      | Inr input_date \<Rightarrow>
          if current_date = date_of input_date then
            Some (Inr (result_dict input_date_string offset), s)
          else
            (case get_consumption_per_day srv (strftime lib (date_of input_date) ''%Y-%m-%d'') s of
               None \<Rightarrow> None
             | Some (Inl e, s1) \<Rightarrow> Some (Inl e, s1)
             | Some (Inr day_data, s1) \<Rightarrow>
            (case day_loop lib input_date day_data (PyInt 0) of
               Inl e \<Rightarrow> Some (Inl e, s1)
             | Inr sum1 \<Rightarrow>
            (case get_consumption_for_month srv (year input_date) (month input_date) s1 of
               None \<Rightarrow> None
             | Some (Inl e, s2) \<Rightarrow> Some (Inl e, s2)
             | Some (Inr month_data, s2) \<Rightarrow>
            (case add_sum_not_none lib sum1 (py_slice_from month_data (day input_date)) of
               Inl e \<Rightarrow> Some (Inl e, s2)
             | Inr sum2 \<Rightarrow>
            (case get_consumption_for_year srv (year input_date) s2 of
               None \<Rightarrow> None
             | Some (Inl e, s3) \<Rightarrow> Some (Inl e, s3)
             | Some (Inr year_data, s3) \<Rightarrow>
            (case add_sum_not_none lib sum2
                    (py_slice year_data (month input_date)
                       (end_index input_date current_date)) of
               Inl e \<Rightarrow> Some (Inl e, s3)
             | Inr sum3 \<Rightarrow>
            (case (if year input_date \<noteq> year current_date then
                     years_loop lib srv [start_year input_date current_date..year current_date]
                       sum3 s3
                   else Some (Inr sum3, s3)) of
               None \<Rightarrow> None
             | Some (Inl e, s4) \<Rightarrow> Some (Inl e, s4)
             | Some (Inr energy_sum, s4) \<Rightarrow>
            (case number_add lib energy_sum offset of
               Inl e \<Rightarrow> Some (Inl e, s4)
             | Inr consumption \<Rightarrow>
                 Some (Inr (result_dict (strftime lib current_date ''%d.%m.%Y %H:%M'')
                              consumption), s4))))))))))"

section \<open>The synchronous client: consumption aggregator\<close>

fun years_loop_sync ::
  "library \<Rightarrow> server \<Rightarrow> int list \<Rightarrow> pynum \<Rightarrow> state \<Rightarrow> pynum outcome" where
  "years_loop_sync lib srv [] energy_sum s = Some (Inr energy_sum, s)"
| "years_loop_sync lib srv (y # ys) energy_sum s =
     (case get_consumption_for_year_sync srv y s of
        None \<Rightarrow> None
      | Some (Inl e, s1) \<Rightarrow> Some (Inl e, s1)
      | Some (Inr year_values, s1) \<Rightarrow>
          (case add_sum_not_none lib energy_sum year_values of
             Inl e \<Rightarrow> Some (Inl e, s1)
           | Inr energy_sum' \<Rightarrow> years_loop_sync lib srv ys energy_sum' s1))"

text \<open>\<open>get_consumption_since_date\<close> of the synchronous client returns a tuple.\<close>

definition get_consumption_since_date_sync ::
  "library \<Rightarrow> server \<Rightarrow> date \<Rightarrow> string \<Rightarrow> pynum \<Rightarrow> state \<Rightarrow> (string \<times> pynum) outcome" where
  "get_consumption_since_date_sync lib srv current_date input_date_string offset s =
     (case strptime lib input_date_string ''%d.%m.%Y %H:%M'' of
        Inl e \<Rightarrow> Some (Inl e, s)
      | Inr input_date \<Rightarrow>
          if current_date = date_of input_date then
            Some (Inr (input_date_string, offset), s)
          else
            (case get_consumption_per_day_sync srv
                    (strftime lib (date_of input_date) ''%Y-%m-%d'') s of
               None \<Rightarrow> None
             | Some (Inl e, s1) \<Rightarrow> Some (Inl e, s1)
             | Some (Inr day_data, s1) \<Rightarrow>
            (case day_loop lib input_date day_data (PyInt 0) of
               Inl e \<Rightarrow> Some (Inl e, s1)
             | Inr sum1 \<Rightarrow>
            (case get_consumption_for_month_sync srv (year input_date) (month input_date) s1 of
               None \<Rightarrow> None
             | Some (Inl e, s2) \<Rightarrow> Some (Inl e, s2)
             | Some (Inr month_data, s2) \<Rightarrow>
            (case add_sum_not_none lib sum1 (py_slice_from month_data (day input_date)) of
               Inl e \<Rightarrow> Some (Inl e, s2)
             | Inr sum2 \<Rightarrow>
            (case get_consumption_for_year_sync srv (year input_date) s2 of
               None \<Rightarrow> None
             | Some (Inl e, s3) \<Rightarrow> Some (Inl e, s3)
             | Some (Inr year_data, s3) \<Rightarrow>
            (case add_sum_not_none lib sum2
                    (py_slice year_data (month input_date)
                       (end_index input_date current_date)) of
               Inl e \<Rightarrow> Some (Inl e, s3)
             | Inr sum3 \<Rightarrow>
            (case (if year input_date \<noteq> year current_date then
                     years_loop_sync lib srv
                       [start_year input_date current_date..year current_date] sum3 s3
                   else Some (Inr sum3, s3)) of
               None \<Rightarrow> None
             | Some (Inl e, s4) \<Rightarrow> Some (Inl e, s4)
             | Some (Inr energy_sum, s4) \<Rightarrow>
            (case number_add lib energy_sum offset of
               Inl e \<Rightarrow> Some (Inl e, s4)
             | Inr consumption \<Rightarrow>
                 Some (Inr (strftime lib current_date ''%d.%m.%Y %H:%M'', consumption),
                       s4))))))))))"

section \<open>Reading a series\<close>

text \<open>
  Whether the timestamp of a bucket reads as a time strictly after the input time: the
  test \<open>formatted_time > input_date\<close> of the loop over the day series.
\<close>

definition after :: "library \<Rightarrow> datetime \<Rightarrow> json \<Rightarrow> bool" where
  "after lib input_date time =
     (case strptime_iso lib time of
        Inl e \<Rightarrow> False
      | Inr formatted_time \<Rightarrow> datetime_less input_date formatted_time)"

text \<open>
  Adding numbers one after the other to a running total with \<open>+=\<close>, from left to right.
\<close>

fun add_all :: "library \<Rightarrow> pynum \<Rightarrow> pynum list \<Rightarrow> exn + pynum" where
  "add_all lib acc [] = Inr acc"
| "add_all lib acc (a # as) =
     (case number_add lib acc a of
        Inl e \<Rightarrow> Inl e
      | Inr acc' \<Rightarrow> add_all lib acc' as)"

text \<open>
  The values of the buckets of a series with an index from \<open>a\<close> up to, not including,
  \<open>b\<close>, those without a value left out.
\<close>

definition bucket_values :: "series \<Rightarrow> nat \<Rightarrow> nat \<Rightarrow> json list" where
  "bucket_values xs a b = [snd (xs ! i). i \<leftarrow> [a..<b], snd (xs ! i) \<noteq> JNull]"

section \<open>A library for running the model\<close>

text \<open>
  To run the model on concrete inputs, the library is instantiated with functions that
  agree with CPython on the inputs used here: date strings that are zero-padded (every
  field written with all its digits), years from 1000 to 9999, and sums of integers.
\<close>

definition leap_year :: "int \<Rightarrow> bool" where
  "leap_year y = (if y mod 100 = 0 then y mod 400 = 0 else y mod 4 = 0)"

definition days_in_month :: "int \<Rightarrow> int \<Rightarrow> int" where
  "days_in_month y m =
     (if m = 2 then (if leap_year y then 29 else 28)
      else if m = 4 \<or> m = 6 \<or> m = 9 \<or> m = 11 then 30 else 31)"

text \<open>The constructor \<open>datetime(y, m, d, H, M, S)\<close>, which rejects what is no date or time.\<close>

definition make_datetime :: "int \<Rightarrow> int \<Rightarrow> int \<Rightarrow> int \<Rightarrow> int \<Rightarrow> int \<Rightarrow> exn + datetime" where
  "make_datetime y m d H M S =
     (if 1 \<le> y \<and> y \<le> 9999 \<and> 1 \<le> m \<and> m \<le> 12 \<and> 1 \<le> d \<and> d \<le> days_in_month y m
         \<and> 0 \<le> H \<and> H \<le> 23 \<and> 0 \<le> M \<and> M \<le> 59 \<and> 0 \<le> S \<and> S \<le> 59
      then Inr \<lparr>year = y, month = m, day = d, hour = H, minute = M, second = S\<rparr>
      else Inl ValueError)"

definition digit :: "char \<Rightarrow> int option" where
  "digit c = (let n = (of_char c :: nat) in
                if 48 \<le> n \<and> n \<le> 57 then Some (int n - 48) else None)"

fun digits_value :: "string \<Rightarrow> int \<Rightarrow> int option" where
  "digits_value [] acc = Some acc"
| "digits_value (c # cs) acc =
     (case digit c of None \<Rightarrow> None | Some d \<Rightarrow> digits_value cs (10 * acc + d))"

text \<open>
  \<open>datetime.strptime\<close> for the two formats the client uses, on the zero-padded layout
  that the formats themselves print: fields of fixed width, every field written with
  all its digits. (CPython also reads fields written with fewer digits; this instance
  answers \<open>ValueError\<close> for them and is not run on such strings.)
\<close>

text \<open>\<open>strptime(t, "%d.%m.%Y %H:%M")\<close>, as in \<open>10.01.2024 05:30\<close>.\<close>

definition strptime_input :: "string \<Rightarrow> exn + datetime" where
  "strptime_input t =
     (if length t = 16 \<and> t ! 2 = CHR ''.'' \<and> t ! 5 = CHR ''.'' \<and> t ! 10 = CHR '' ''
         \<and> t ! 13 = CHR '':''
      then
        (case (digits_value (take 2 t) 0, digits_value (take 2 (drop 3 t)) 0,
               digits_value (take 4 (drop 6 t)) 0, digits_value (take 2 (drop 11 t)) 0,
               digits_value (take 2 (drop 14 t)) 0) of
           (Some d, Some m, Some y, Some H, Some M) \<Rightarrow> make_datetime y m d H M 0
         | _ \<Rightarrow> Inl ValueError)
      else Inl ValueError)"

text \<open>\<open>strptime(t, "%Y-%m-%dT%H:%M:%S")\<close>, as in \<open>2024-01-10T05:00:00\<close>.\<close>

definition strptime_iso_string :: "string \<Rightarrow> exn + datetime" where
  "strptime_iso_string t =
     (if length t = 19 \<and> t ! 4 = CHR ''-'' \<and> t ! 7 = CHR ''-'' \<and> t ! 10 = CHR ''T''
         \<and> t ! 13 = CHR '':'' \<and> t ! 16 = CHR '':''
      then
        (case (digits_value (take 4 t) 0, digits_value (take 2 (drop 5 t)) 0,
               digits_value (take 2 (drop 8 t)) 0, digits_value (take 2 (drop 11 t)) 0,
               digits_value (take 2 (drop 14 t)) 0, digits_value (take 2 (drop 17 t)) 0) of
           (Some y, Some m, Some d, Some H, Some M, Some S) \<Rightarrow> make_datetime y m d H M S
         | _ \<Rightarrow> Inl ValueError)
      else Inl ValueError)"

text \<open>\<open>strftime\<close>: two-digit fields, and the year in four digits (years from 1000 on).\<close>

definition two_digits :: "int \<Rightarrow> string" where
  "two_digits n = [char_of (48 + nat (n div 10 mod 10)), char_of (48 + nat (n mod 10))]"

definition four_digits :: "int \<Rightarrow> string" where
  "four_digits n = two_digits (n div 100) @ two_digits (n mod 100)"

text \<open>\<open>d.strftime("%Y-%m-%d")\<close>.\<close>

definition strftime_ymd :: "date \<Rightarrow> string" where
  "strftime_ymd d = four_digits (year d) @ ''-'' @ two_digits (month d) @ ''-'' @ two_digits (day d)"

text \<open>\<open>d.strftime("%d.%m.%Y %H:%M")\<close> of a date: its time of day is 00:00.\<close>

definition strftime_dmy_hm :: "date \<Rightarrow> string" where
  "strftime_dmy_hm d =
     two_digits (day d) @ ''.'' @ two_digits (month d) @ ''.'' @ four_digits (year d) @ '' 00:00''"

definition strptime_padded :: "string \<Rightarrow> string \<Rightarrow> exn + datetime" where
  "strptime_padded t fmt =
     (if fmt = ''%d.%m.%Y %H:%M'' then strptime_input t
      else if fmt = ''%Y-%m-%dT%H:%M:%S'' then strptime_iso_string t
      else Inl ValueError)"

definition strftime_padded :: "date \<Rightarrow> string \<Rightarrow> string" where
  "strftime_padded d fmt =
     (if fmt = ''%Y-%m-%d'' then strftime_ymd d
      else if fmt = ''%d.%m.%Y %H:%M'' then strftime_dmy_hm d
      else [])"

text \<open>
  Arithmetic without rounding: what Python computes on \<open>int\<close>s. On \<open>float\<close>s it is what
  Python computes only where nothing is rounded: every \<open>int\<close> operand and the exact result
  are \<open>float\<close>s. The runs below add \<open>int\<close>s only.
\<close>

fun float_add :: "pyfloat \<Rightarrow> pyfloat \<Rightarrow> pyfloat" where
  "float_add (Finite m1 e1) (Finite m2 e2) =
     (let e = min e1 e2 in Finite (m1 * 2 ^ nat (e1 - e) + m2 * 2 ^ nat (e2 - e)) e)"
| "float_add NaN y = NaN"
| "float_add x NaN = NaN"
| "float_add PosInf NegInf = NaN"
| "float_add NegInf PosInf = NaN"
| "float_add PosInf y = PosInf"
| "float_add NegInf y = NegInf"
| "float_add x PosInf = PosInf"
| "float_add x NegInf = NegInf"

fun exact_add :: "pynum \<Rightarrow> pynum \<Rightarrow> exn + pynum" where
  "exact_add (PyInt a) (PyInt b) = Inr (PyInt (a + b))"
| "exact_add (PyInt a) (PyFloat y) = Inr (PyFloat (float_add (Finite a 0) y))"
| "exact_add (PyFloat x) (PyInt b) = Inr (PyFloat (float_add x (Finite b 0)))"
| "exact_add (PyFloat x) (PyFloat y) = Inr (PyFloat (float_add x y))"

fun exact_sum_from :: "pynum \<Rightarrow> pynum list \<Rightarrow> exn + pynum" where
  "exact_sum_from acc [] = Inr acc"
| "exact_sum_from acc (a # as) =
     (case exact_add acc a of
        Inl e \<Rightarrow> Inl e
      | Inr acc' \<Rightarrow> exact_sum_from acc' as)"

definition exact_python :: library where
  "exact_python =
     \<lparr>strptime = strptime_padded, strftime = strftime_padded,
      number_add = exact_add, number_sum = exact_sum_from (PyInt 0)\<rparr>"

section \<open>Concrete providers and runs\<close>

text \<open>
  The inputs at which the properties below are evaluated. \<open>live\<close> is a client that is
  logged in and knows its metering point; no session file is on disk.
\<close>

definition answer :: "int \<Rightarrow> body \<Rightarrow> response" where
  "answer code b = \<lparr>status_code = code, body = b, set_cookies = []\<rparr>"

definition live :: state where
  "live = (init ''user'' ''secret'' None)
            \<lparr>session := Some [(''sid'', ''old'')], metering_point_id := JStr ''AT001''\<rparr>"

text \<open>A provider in an outage: every request is answered with status 500.\<close>

definition srv_500 :: server where
  "srv_500 n rq = Inr (answer 500 BadJson)"

text \<open>
  A provider whose first answer to a GET is 401 and every later one 200, and which
  accepts every login with a fresh cookie.
\<close>

definition srv_401_200 :: server where
  "srv_401_200 n rq =
     (case rq of
        Get url c ps \<Rightarrow>
          if n = 0 then Inr (answer 401 BadJson) else Inr (answer 200 (Json (JArr [])))
      | PostForm url c d \<Rightarrow>
          Inr \<lparr>status_code = 200, body = BadJson, set_cookies = [(''sid'', ''new'')]\<rparr>
      | PostJson url c d \<Rightarrow>
          Inr \<lparr>status_code = 200, body = BadJson, set_cookies = [(''sid'', ''new'')]\<rparr>)"

text \<open>A provider that never answers 200 or 401.\<close>

definition other_status :: "server \<Rightarrow> bool" where
  "other_status srv =
     (\<forall>n rq. \<exists>r. srv n rq = Inr r \<and> status_code r \<noteq> 200 \<and> status_code r \<noteq> 401)"

text \<open>A logged-in client whose session is also in the session file.\<close>

definition stale :: state where
  "stale = live\<lparr>session_file := Some [(''sid'', ''old'')]\<rparr>"

text \<open>A provider that rejects every request with 401.\<close>

definition srv_401 :: server where
  "srv_401 n rq = Inr (answer 401 BadJson)"

text \<open>A provider that cannot be reached: every request fails in the transport.\<close>

definition srv_down :: server where
  "srv_down n rq = Inl RequestError"

text \<open>A provider for which the probe of a session raises \<open>TypeError\<close>, and which accepts logins.\<close>

definition srv_probe_type_error :: server where
  "srv_probe_type_error n rq =
     (case rq of
        Get url c ps \<Rightarrow> Inl TypeError
      | PostForm url c d \<Rightarrow>
          Inr \<lparr>status_code = 200, body = BadJson, set_cookies = [(''sid'', ''new'')]\<rparr>
      | PostJson url c d \<Rightarrow>
          Inr \<lparr>status_code = 200, body = BadJson, set_cookies = [(''sid'', ''new'')]\<rparr>)"

text \<open>A day series whose second bucket, at 06:00, has no value.\<close>

definition day_with_null :: json where
  "day_with_null =
     JObj [(''peakDemandTimes'',
              JArr [JStr ''2024-01-10T05:00:00'', JStr ''2024-01-10T06:00:00'']),
           (''meteredValues'', JArr [JNum 2, JNull])]"

text \<open>
  Providers that answer every request with that series, in the shape each client reads:
  an array around the object for the asynchronous client, the object for the
  synchronous one.
\<close>

definition srv_null_day :: server where
  "srv_null_day n rq = Inr (answer 200 (Json (JArr [day_with_null])))"

definition srv_null_day_sync :: server where
  "srv_null_day_sync n rq = Inr (answer 200 (Json day_with_null))"

text \<open>
  A run of the aggregator: the series of 10 January 2024, of January 2024 (twelve days
  of it, the last one without a value) and of 2024 up to March, the provider that
  returns them to the first, second and third request, and the three requests.
\<close>

definition day_example :: json where
  "day_example =
     JObj [(''peakDemandTimes'',
              JArr [JStr ''2024-01-10T05:00:00'', JStr ''2024-01-10T06:00:00'']),
           (''meteredValues'', JArr [JNum 2, JNum 3])]"

definition month_example :: json where
  "month_example =
     JObj [(''peakDemandTimes'',
              JArr [JStr ''2024-01-01T00:00:00'', JStr ''2024-01-02T00:00:00'',
                    JStr ''2024-01-03T00:00:00'', JStr ''2024-01-04T00:00:00'',
                    JStr ''2024-01-05T00:00:00'', JStr ''2024-01-06T00:00:00'',
                    JStr ''2024-01-07T00:00:00'', JStr ''2024-01-08T00:00:00'',
                    JStr ''2024-01-09T00:00:00'', JStr ''2024-01-10T00:00:00'',
                    JStr ''2024-01-11T00:00:00'', JStr ''2024-01-12T00:00:00'']),
           (''meteredValues'',
              JArr [JNum 1, JNum 1, JNum 1, JNum 1, JNum 1, JNum 1, JNum 1, JNum 1, JNum 1,
                    JNum 5, JNum 4, JNull])]"

definition year_example :: json where
  "year_example =
     JObj [(''peakDemandTimes'',
              JArr [JStr ''2024-01-01T00:00:00'', JStr ''2024-02-01T00:00:00'',
                    JStr ''2024-03-01T00:00:00'']),
           (''values'', JArr [JNum 10, JNum 20, JNum 30])]"

definition srv_three :: server where
  "srv_three n rq =
     Inr (answer 200 (Json (JArr [if n = 0 then day_example
                                  else if n = 1 then month_example else year_example])))"

definition sent_day :: request where
  "sent_day = Get (API_CONSUMPTION_URL @ ''/Day'') [(''sid'', ''old'')]
                [(''meterId'', JStr ''AT001''), (''day'', JStr ''2024-01-10'')]"

definition sent_month :: request where
  "sent_month = Get (API_CONSUMPTION_URL @ ''/Month'') [(''sid'', ''old'')]
                  [(''meterId'', JStr ''AT001''), (''year'', JNum 2024), (''month'', JNum 1)]"

definition sent_year :: request where
  "sent_year = Get (API_CONSUMPTION_URL @ ''/Year'') [(''sid'', ''old'')]
                 [(''meterId'', JStr ''AT001''), (''year'', JNum 2024)]"

definition day_series_example :: series where
  "day_series_example =
     [(JStr ''2024-01-10T05:00:00'', JNum 2), (JStr ''2024-01-10T06:00:00'', JNum 3)]"

definition month_series_example :: series where
  "month_series_example =
     [(JStr ''2024-01-01T00:00:00'', JNum 1), (JStr ''2024-01-02T00:00:00'', JNum 1),
      (JStr ''2024-01-03T00:00:00'', JNum 1), (JStr ''2024-01-04T00:00:00'', JNum 1),
      (JStr ''2024-01-05T00:00:00'', JNum 1), (JStr ''2024-01-06T00:00:00'', JNum 1),
      (JStr ''2024-01-07T00:00:00'', JNum 1), (JStr ''2024-01-08T00:00:00'', JNum 1),
      (JStr ''2024-01-09T00:00:00'', JNum 1), (JStr ''2024-01-10T00:00:00'', JNum 5),
      (JStr ''2024-01-11T00:00:00'', JNum 4), (JStr ''2024-01-12T00:00:00'', JNull)]"

definition year_series_example :: series where
  "year_series_example =
     [(JStr ''2024-01-01T00:00:00'', JNum 10), (JStr ''2024-02-01T00:00:00'', JNum 20),
      (JStr ''2024-03-01T00:00:00'', JNum 30)]"

text \<open>
  Comparing the two clients. The asynchronous accessors read \<open>response.json()[0]\<close>, the
  synchronous ones \<open>response.json()\<close>: \<open>in_array\<close> puts the JSON value of a body into an
  array of one element, and \<open>enveloped srv\<close> is the provider \<open>srv\<close> with every body so
  wrapped.
\<close>

definition in_array :: "response \<Rightarrow> response" where
  "in_array r = r\<lparr>body := (case body r of BadJson \<Rightarrow> BadJson | Json j \<Rightarrow> Json (JArr [j]))\<rparr>"






text \<open>The provider of the run above with bodies in the shape the synchronous client reads.\<close>

definition srv_three_sync :: server where
  "srv_three_sync n rq =
     Inr (answer 200 (Json (if n = 0 then day_example
                            else if n = 1 then month_example else year_example)))"

text \<open>The request for the year after, which a call in 2025 sends as well.\<close>

definition sent_next_year :: request where
  "sent_next_year = Get (API_CONSUMPTION_URL @ ''/Year'') [(''sid'', ''old'')]
                      [(''meterId'', JStr ''AT001''), (''year'', JNum 2025)]"

section \<open>API caller: the retry loop\<close>

lemma loop_other_status:
  assumes "call_api_loop srv url ps rc s = Some y"
  shows "\<not> (rc < 1 \<and> session s \<noteq> None \<and> other_status srv)"
proof (rule call_api_loop.raw_induct
    [where P = "\<lambda>srv url ps rc s y. \<not> (rc < 1 \<and> session s \<noteq> None \<and> other_status srv)",
      OF _ assms])
  fix loop :: "server \<Rightarrow> string \<Rightarrow> (string \<times> json) list \<Rightarrow> int \<Rightarrow> state
                 \<Rightarrow> response option outcome"
  fix srv url ps rc s y
  assume IH: "\<And>srv url ps rc s y. loop srv url ps rc s = Some y \<Longrightarrow>
                \<not> (rc < 1 \<and> session s \<noteq> None \<and> other_status srv)"
    and step: "(if rc < 1 then
        (case session s of
           None \<Rightarrow> Some (Inl AttributeError, s)
         | Some c \<Rightarrow>
             (case send srv (Get url c ps) s of
                (Inl e, s1) \<Rightarrow> Some (Inl e, s1)
              | (Inr r, s1) \<Rightarrow>
                  if status_code r = 401 then
                    (case authenticate srv None None s1 of
                       (Inl e, s2) \<Rightarrow> Some (Inl e, s2)
                     | (Inr _, s2) \<Rightarrow> loop srv url ps (rc + 1) s2)
                  else if status_code r = 200 then Some (Inr (Some r), s1)
                  else loop srv url ps rc s1))
      else Some (Inr None, s)) = Some y"
  show "\<not> (rc < 1 \<and> session s \<noteq> None \<and> other_status srv)"
  proof
    assume h: "rc < 1 \<and> session s \<noteq> None \<and> other_status srv"
    then obtain c where c: "session s = Some c" by auto
    from h obtain r where r: "srv (length (sent s)) (Get url c ps) = Inr r"
      "status_code r \<noteq> 200" "status_code r \<noteq> 401"
      unfolding other_status_def by blast
    let ?s1 = "s\<lparr>sent := sent s @ [Get url c ps]\<rparr>"
    from step h c r have "loop srv url ps rc ?s1 = Some y"
      by (simp add: send_def)
    from IH[OF this] have "\<not> (rc < 1 \<and> session ?s1 \<noteq> None \<and> other_status srv)" .
    with h c show False by simp
  qed
qed

lemma loop_sync_other_status:
  assumes "call_api_loop_sync srv url ps rc s = Some y"
  shows "\<not> (rc < 1 \<and> session s \<noteq> None \<and> other_status srv)"
proof (rule call_api_loop_sync.raw_induct
    [where P = "\<lambda>srv url ps rc s y. \<not> (rc < 1 \<and> session s \<noteq> None \<and> other_status srv)",
      OF _ assms])
  fix loop :: "server \<Rightarrow> string \<Rightarrow> (string \<times> json) list \<Rightarrow> int \<Rightarrow> state
                 \<Rightarrow> response option outcome"
  fix srv url ps rc s y
  assume IH: "\<And>srv url ps rc s y. loop srv url ps rc s = Some y \<Longrightarrow>
                \<not> (rc < 1 \<and> session s \<noteq> None \<and> other_status srv)"
    and step: "(if rc < 1 then
        (case session s of
           None \<Rightarrow> Some (Inl AttributeError, s)
         | Some c \<Rightarrow>
             (case send srv (Get url c ps) s of
                (Inl e, s1) \<Rightarrow> Some (Inl e, s1)
              | (Inr r, s1) \<Rightarrow>
                  if status_code r = 401 then
                    (case authenticate_sync srv (username s1) (password s1) s1 of
                       (Inl e, s2) \<Rightarrow> Some (Inl e, s2)
                     | (Inr _, s2) \<Rightarrow> loop srv url ps (rc + 1) s2)
                  else if status_code r = 200 then Some (Inr (Some r), s1)
                  else loop srv url ps rc s1))
      else Some (Inr None, s)) = Some y"
  show "\<not> (rc < 1 \<and> session s \<noteq> None \<and> other_status srv)"
  proof
    assume h: "rc < 1 \<and> session s \<noteq> None \<and> other_status srv"
    then obtain c where c: "session s = Some c" by auto
    from h obtain r where r: "srv (length (sent s)) (Get url c ps) = Inr r"
      "status_code r \<noteq> 200" "status_code r \<noteq> 401"
      unfolding other_status_def by blast
    let ?s1 = "s\<lparr>sent := sent s @ [Get url c ps]\<rparr>"
    from step h c r have "loop srv url ps rc ?s1 = Some y"
      by (simp add: send_def)
    from IH[OF this] have "\<not> (rc < 1 \<and> session ?s1 \<noteq> None \<and> other_status srv)" .
    with h c show False by simp
  qed
qed

lemma other_status_srv_500: "other_status srv_500"
  by (simp add: other_status_def srv_500_def answer_def)

text \<open>
  C1. The claim: every call of \<open>_call_api\<close> terminates, whatever statuses the provider
  returns, a provider that keeps returning a status other than 200 and 401 included.
  The code: on such a status neither branch of the loop body runs, \<open>retry_count\<close> stays 0
  and the request is sent again. Against a provider that answers every request with 500,
  the call of a logged-in client has no outcome, in the asynchronous and in the
  synchronous client.
\<close>

theorem call_api_never_returns_on_500:
  "call_api srv_500 url params live = None \<and> call_api_sync srv_500 url params live = None"
proof -
  have live: "session live \<noteq> None" by (simp add: live_def init_def)
  have a: "call_api_loop srv_500 url params 0 live = None"
    using loop_other_status[of srv_500 url params 0 live] live other_status_srv_500
    by (cases "call_api_loop srv_500 url params 0 live") auto
  have b: "call_api_loop_sync srv_500 url params 0 live = None"
    using loop_sync_other_status[of srv_500 url params 0 live] live other_status_srv_500
    by (cases "call_api_loop_sync srv_500 url params 0 live") auto
  from a b live show ?thesis
    by (auto simp: call_api_def call_api_sync_def split: option.splits)
qed

text \<open>
  C2. The claim: the responses 401, 200 to one call make the call succeed with the 200
  response after one retry. The code: after the 401 the client authenticates again, sets
  \<open>retry_count\<close> to 1 and leaves the loop; the request is not sent a second time and the
  call returns \<open>None\<close>. The requests sent are the one GET and the login.
\<close>

theorem call_api_401_then_200_returns_none:
  "call_api srv_401_200 ''u'' [] live =
     Some (Inr None,
           live\<lparr>session := Some [(''sid'', ''new'')], session_file := Some [(''sid'', ''new'')],
                sent := [Get ''u'' [(''sid'', ''old'')] [],
                         PostForm AUTH_URL [] [(''user'', ''user''), (''pwd'', ''secret'')]]\<rparr>)
   \<and> call_api_sync srv_401_200 ''u'' [] live =
     Some (Inr None,
           live\<lparr>session := Some [(''sid'', ''new'')], session_file := Some [(''sid'', ''new'')],
                sent := [Get ''u'' [(''sid'', ''old'')] [],
                         PostJson AUTH_URL [] [(''user'', ''user''), (''pwd'', ''secret'')]]\<rparr>)"
  by code_simp

section \<open>Authenticator: a failed login\<close>

lemma send_state: "send srv rq s = (r, s1) \<Longrightarrow> s1 = s\<lparr>sent := sent s @ [rq]\<rparr>"
  by (simp add: send_def)

lemma check_session_state:
  assumes "check_session srv c s = (r, s1)"
  shows "s1 = s\<lparr>sent := sent s @ [Get API_USER_DETAILS_URL c []]\<rparr>"
proof (cases "srv (length (sent s)) (Get API_USER_DETAILS_URL c [])")
  case (Inl e)
  with assms show ?thesis by (auto simp: check_session_def send_def split: if_splits)
next
  case (Inr a)
  with assms show ?thesis by (auto simp: check_session_def send_def)
qed

lemma but_sent: "s1 = s\<lparr>sent := x\<rparr> \<Longrightarrow> s1 = s\<lparr>sent := sent s1\<rparr>"
  by simp

lemma but_sent_trans:
  "s1 = s\<lparr>sent := x\<rparr> \<Longrightarrow> s2 = s1\<lparr>sent := y\<rparr> \<Longrightarrow> s2 = s\<lparr>sent := sent s2\<rparr>"
  by simp

lemma load_check_session_not_adopted:
  assumes "load_check_session srv s = (r, s1)" and "r \<noteq> Inr True"
  shows "s1 = s\<lparr>sent := sent s1\<rparr>"
proof (cases "session_file s")
  case None
  with assms show ?thesis by (simp add: load_check_session_def)
next
  case (Some c)
  obtain r0 s0 where c: "check_session srv c s = (r0, s0)" by (cases "check_session srv c s")
  from check_session_state[OF c]
  have s0: "s0 = s\<lparr>sent := sent s @ [Get API_USER_DETAILS_URL c []]\<rparr>" .
  have "s1 = s0"
  proof (cases r0)
    case (Inl e)
    with assms(1) Some c show ?thesis by (simp add: load_check_session_def)
  next
    case (Inr ok)
    with assms Some c show ?thesis by (cases ok) (auto simp: load_check_session_def)
  qed
  with s0 show ?thesis by (intro but_sent) simp
qed

lemma authenticate_raises_state:
  assumes "authenticate srv None None s = (Inl e, s')"
  shows "s' = s\<lparr>sent := sent s'\<rparr>"
proof -
  obtain r1 s1 where l: "load_check_session srv s = (r1, s1)"
    by (cases "load_check_session srv s")
  show ?thesis
  proof (cases r1)
    case (Inl e1)
    with assms l have "s' = s1" by (simp add: authenticate_def)
    with load_check_session_not_adopted[OF l] Inl show ?thesis by blast
  next
    case (Inr ok)
    show ?thesis
    proof (cases ok)
      case True
      with assms l Inr show ?thesis by (simp add: authenticate_def)
    next
      case False
      with load_check_session_not_adopted[OF l] Inr have s1: "s1 = s\<lparr>sent := sent s1\<rparr>" by simp
      let ?rq = "PostForm AUTH_URL [] [(''user'', username s1), (''pwd'', password s1)]"
      obtain r2 s2 where p: "send srv ?rq s1 = (r2, s2)" by (cases "send srv ?rq s1")
      from send_state[OF p] have s2: "s2 = s1\<lparr>sent := sent s1 @ [?rq]\<rparr>" .
      from assms l Inr False p have "s' = s2"
        by (cases r2) (auto simp: authenticate_def split: if_splits)
      with s2 have "s' = s1\<lparr>sent := sent s1 @ [?rq]\<rparr>" by simp
      with s1 show ?thesis by (rule but_sent_trans)
    qed
  qed
qed

lemma cached_session_sync_state:
  assumes "cached_session_sync srv s = (r, s1)"
  shows "s1 = s\<lparr>sent := sent s1\<rparr>"
proof (cases "session_file s")
  case None
  with assms show ?thesis by (simp add: cached_session_sync_def)
next
  case (Some c)
  let ?rq = "Get API_USER_DETAILS_URL c []"
  obtain r0 s0 where p: "send srv ?rq s = (r0, s0)" by (cases "send srv ?rq s")
  from send_state[OF p] have s0: "s0 = s\<lparr>sent := sent s @ [?rq]\<rparr>" .
  from assms Some p have "s1 = s0"
    by (cases r0) (auto simp: cached_session_sync_def)
  with s0 show ?thesis by (intro but_sent) simp
qed

lemma authenticate_sync_raises_state:
  assumes "authenticate_sync srv user pwd s = (Inl e, s')"
  shows "s' = s\<lparr>sent := sent s'\<rparr>"
proof -
  obtain r1 s1 where l: "cached_session_sync srv s = (r1, s1)"
    by (cases "cached_session_sync srv s")
  from cached_session_sync_state[OF l] have s1: "s1 = s\<lparr>sent := sent s1\<rparr>" .
  show ?thesis
  proof (cases r1)
    case (Inl e1)
    with assms l have "s' = s1" by (simp add: authenticate_sync_def)
    with s1 show ?thesis by blast
  next
    case (Inr cached)
    show ?thesis
    proof (cases cached)
      case (Some c)
      with assms l Inr show ?thesis by (simp add: authenticate_sync_def)
    next
      case None
      let ?rq = "PostJson AUTH_URL [] [(''user'', user), (''pwd'', pwd)]"
      obtain r2 s2 where p: "send srv ?rq s1 = (r2, s2)" by (cases "send srv ?rq s1")
      from send_state[OF p] have s2: "s2 = s1\<lparr>sent := sent s1 @ [?rq]\<rparr>" .
      from assms l Inr None p have "s' = s2"
        by (cases r2) (auto simp: authenticate_sync_def split: if_splits)
      with s2 have "s' = s1\<lparr>sent := sent s1 @ [?rq]\<rparr>" by simp
      with s1 show ?thesis by (rule but_sent_trans)
    qed
  qed
qed

text \<open>
  C10. When \<open>authenticate()\<close>, called without new credentials, fails with
  \<open>SmartmeterLoginError\<close> or \<open>SmartmeterConnectionError\<close>, the live session handle keeps
  its value and the session file keeps its content; indeed no field of the client
  changes, only the requests that were sent are added to the record of the run. The same
  holds for \<open>_authenticate\<close> of the synchronous client.
\<close>

theorem authenticate_failure_keeps_state:
  assumes "e = SmartmeterLoginError \<or> e = SmartmeterConnectionError code"
  shows "(authenticate srv None None s = (Inl e, s') \<longrightarrow>
            session s' = session s \<and> session_file s' = session_file s
            \<and> s' = s\<lparr>sent := sent s'\<rparr>)
       \<and> (authenticate_sync srv (username s) (password s) s = (Inl e, s') \<longrightarrow>
            session s' = session s \<and> session_file s' = session_file s
            \<and> s' = s\<lparr>sent := sent s'\<rparr>)"
proof (intro conjI impI)
  assume a: "authenticate srv None None s = (Inl e, s')"
  from authenticate_raises_state[OF a] have eq: "s' = s\<lparr>sent := sent s'\<rparr>" .
  then show "s' = s\<lparr>sent := sent s'\<rparr>" .
  from eq have "session s' = session (s\<lparr>sent := sent s'\<rparr>)" by (rule arg_cong)
  then show "session s' = session s" by simp
  from eq have "session_file s' = session_file (s\<lparr>sent := sent s'\<rparr>)" by (rule arg_cong)
  then show "session_file s' = session_file s" by simp
next
  assume a: "authenticate_sync srv (username s) (password s) s = (Inl e, s')"
  from authenticate_sync_raises_state[OF a] have eq: "s' = s\<lparr>sent := sent s'\<rparr>" .
  then show "s' = s\<lparr>sent := sent s'\<rparr>" .
  from eq have "session s' = session (s\<lparr>sent := sent s'\<rparr>)" by (rule arg_cong)
  then show "session s' = session s" by simp
  from eq have "session_file s' = session_file (s\<lparr>sent := sent s'\<rparr>)" by (rule arg_cong)
  then show "session_file s' = session_file s" by simp
qed

theorem authenticate_failure_keeps_state_witness:
  "authenticate srv_401 None None stale =
     (Inl SmartmeterLoginError,
      stale\<lparr>sent := [Get API_USER_DETAILS_URL [(''sid'', ''old'')] [],
                       PostForm AUTH_URL [] [(''user'', ''user''), (''pwd'', ''secret'')]]\<rparr>)
   \<and> session (stale\<lparr>sent := [Get API_USER_DETAILS_URL [(''sid'', ''old'')] [],
                       PostForm AUTH_URL [] [(''user'', ''user''), (''pwd'', ''secret'')]]\<rparr>)
       = session stale
   \<and> session_file (stale\<lparr>sent := [Get API_USER_DETAILS_URL [(''sid'', ''old'')] [],
                       PostForm AUTH_URL [] [(''user'', ''user''), (''pwd'', ''secret'')]]\<rparr>)
       = session_file stale"
proof -
  let ?s' = "stale\<lparr>sent := [Get API_USER_DETAILS_URL [(''sid'', ''old'')] [],
                       PostForm AUTH_URL [] [(''user'', ''user''), (''pwd'', ''secret'')]]\<rparr>"
  have run: "authenticate srv_401 None None stale = (Inl SmartmeterLoginError, ?s')"
    by code_simp
  have "SmartmeterLoginError = SmartmeterLoginError \<or> SmartmeterLoginError = SmartmeterConnectionError 0"
    by simp
  from authenticate_failure_keeps_state[OF this, of srv_401 stale ?s', THEN conjunct1, rule_format, OF run]
  have "session ?s' = session stale \<and> session_file ?s' = session_file stale" by blast
  with run show ?thesis by blast
qed

section \<open>Authenticator: validating the cached session\<close>

text \<open>
  C8, as claimed: a network-level failure while the cached session is validated never
  leaves \<open>authenticate()\<close> as an exception. It does: the handler of \<open>_check_session\<close>
  catches \<open>TypeError\<close> only, so the \<open>httpx.RequestError\<close> of an unreachable provider
  passes through \<open>_load_check_session\<close> and \<open>authenticate\<close>, and no login is tried.
\<close>

theorem probe_network_failure_propagates:
  "authenticate srv_down None None stale =
     (Inl RequestError, stale\<lparr>sent := [Get API_USER_DETAILS_URL [(''sid'', ''old'')] []]\<rparr>)"
  by code_simp

text \<open>
  C8, amended: of the exceptions that the probe of the cached session can raise, a
  \<open>TypeError\<close> is treated as "session invalid" and \<open>authenticate()\<close> goes on to the fresh
  login, whose answer decides the outcome; any other exception, a network-level failure
  included, leaves \<open>authenticate()\<close> after the probe.
\<close>

theorem probe_type_error_falls_through:
  assumes "session_file s = Some c"
    and "srv (length (sent s)) (Get API_USER_DETAILS_URL c []) = Inl e"
  shows "authenticate srv None None s =
    (if e = TypeError then
       (case srv (Suc (length (sent s)))
               (PostForm AUTH_URL [] [(''user'', username s), (''pwd'', password s)]) of
          Inl e' \<Rightarrow>
            (Inl e', s\<lparr>sent := sent s @ [Get API_USER_DETAILS_URL c [],
                       PostForm AUTH_URL [] [(''user'', username s), (''pwd'', password s)]]\<rparr>)
        | Inr r \<Rightarrow>
            if status_code r = 200 then
              (Inr True, s\<lparr>session := Some (set_cookies r), session_file := Some (set_cookies r),
                  sent := sent s @ [Get API_USER_DETAILS_URL c [],
                       PostForm AUTH_URL [] [(''user'', username s), (''pwd'', password s)]]\<rparr>)
            else if status_code r = 401 then
              (Inl SmartmeterLoginError,
               s\<lparr>sent := sent s @ [Get API_USER_DETAILS_URL c [],
                       PostForm AUTH_URL [] [(''user'', username s), (''pwd'', password s)]]\<rparr>)
            else
              (Inl (SmartmeterConnectionError (status_code r)),
               s\<lparr>sent := sent s @ [Get API_USER_DETAILS_URL c [],
                       PostForm AUTH_URL [] [(''user'', username s), (''pwd'', password s)]]\<rparr>))
     else (Inl e, s\<lparr>sent := sent s @ [Get API_USER_DETAILS_URL c []]\<rparr>))"
proof -
  let ?probe = "Get API_USER_DETAILS_URL c []"
  let ?s1 = "s\<lparr>sent := sent s @ [?probe]\<rparr>"
  from assms(2) have chk: "check_session srv c s =
      (if e = TypeError then (Inr False, ?s1) else (Inl e, ?s1))"
    by (simp add: check_session_def send_def)
  show ?thesis
  proof (cases "e = TypeError")
    case False
    with chk assms(1) show ?thesis
      by (simp add: authenticate_def load_check_session_def)
  next
    case True
    with chk assms(1) have l: "load_check_session srv s = (Inr False, ?s1)"
      by (simp add: load_check_session_def)
    show ?thesis
    proof (cases "srv (Suc (length (sent s)))
               (PostForm AUTH_URL [] [(''user'', username s), (''pwd'', password s)])")
      case (Inl e')
      with l True show ?thesis
        by (simp add: authenticate_def send_def)
    next
      case (Inr r)
      with l True show ?thesis
        by (simp add: authenticate_def send_def save_session_def)
    qed
  qed
qed

theorem probe_type_error_falls_through_witness:
  "session_file stale = Some [(''sid'', ''old'')]
   \<and> srv_probe_type_error (length (sent stale)) (Get API_USER_DETAILS_URL [(''sid'', ''old'')] [])
       = Inl TypeError
   \<and> authenticate srv_probe_type_error None None stale =
       (Inr True, stale\<lparr>session := Some [(''sid'', ''new'')],
                       session_file := Some [(''sid'', ''new'')],
                       sent := [Get API_USER_DETAILS_URL [(''sid'', ''old'')] [],
                          PostForm AUTH_URL [] [(''user'', ''user''), (''pwd'', ''secret'')]]\<rparr>)"
proof -
  have f: "session_file stale = Some [(''sid'', ''old'')]"
    by (simp add: stale_def)
  have p: "srv_probe_type_error (length (sent stale))
             (Get API_USER_DETAILS_URL [(''sid'', ''old'')] []) = Inl TypeError"
    by (simp add: srv_probe_type_error_def)
  from probe_type_error_falls_through[of stale "[(''sid'', ''old'')]" srv_probe_type_error TypeError, OF f p] f p show ?thesis
    by (simp add: srv_probe_type_error_def stale_def live_def init_def)
qed

section \<open>Consumption accessors and a caller without a response\<close>

text \<open>
  C7. The claim: whatever fails inside a consumption accessor, the case that the API
  caller yields no usable response included, the accessor returns the empty series. The
  code: when the request is answered with 401, \<open>_call_api\<close> authenticates again and
  returns \<open>None\<close>; \<open>response.json()\<close> (for the year, \<open>response.raise_for_status()\<close>) on
  \<open>None\<close> is an \<open>AttributeError\<close>, which the handler for \<open>RequestError\<close> and \<open>ValueError\<close>
  does not catch. All three accessors of both clients raise it.
\<close>

theorem accessor_raises_when_call_api_returns_none:
  "map_option fst (get_consumption_per_day srv_401_200 ''2024-01-10'' live)
     = Some (Inl AttributeError)
   \<and> map_option fst (get_consumption_for_month srv_401_200 2024 1 live)
     = Some (Inl AttributeError)
   \<and> map_option fst (get_consumption_for_year srv_401_200 2024 live)
     = Some (Inl AttributeError)
   \<and> map_option fst (get_consumption_per_day_sync srv_401_200 ''2024-01-10'' live)
     = Some (Inl AttributeError)
   \<and> map_option fst (get_consumption_for_month_sync srv_401_200 2024 1 live)
     = Some (Inl AttributeError)
   \<and> map_option fst (get_consumption_for_year_sync srv_401_200 2024 live)
     = Some (Inl AttributeError)"
  by code_simp

section \<open>Consumption aggregator: an input of today\<close>

text \<open>
  C6. When the date of the input timestamp is today's date, \<open>get_consumption_since_date\<close>
  returns the offset unchanged, with the input string as timestamp, and sends no
  request: the state, the list of sent requests included, is the one it started from.
  This holds for both clients and for every behaviour of the library.
\<close>

theorem same_day_returns_offset:
  assumes "strptime lib input_date_string ''%d.%m.%Y %H:%M'' = Inr input_date"
    and "date_of input_date = current_date"
  shows "get_consumption_since_date lib srv current_date input_date_string offset s =
           Some (Inr (result_dict input_date_string offset), s)
       \<and> get_consumption_since_date_sync lib srv current_date input_date_string offset s =
           Some (Inr (input_date_string, offset), s)"
  using assms by (simp add: get_consumption_since_date_def get_consumption_since_date_sync_def)

theorem same_day_returns_offset_witness:
  "strptime exact_python ''10.01.2024 05:30'' ''%d.%m.%Y %H:%M'' =
     Inr \<lparr>year = 2024, month = 1, day = 10, hour = 5, minute = 30, second = 0\<rparr>
   \<and> date_of \<lparr>year = 2024, month = 1, day = 10, hour = 5, minute = 30, second = 0\<rparr> =
     \<lparr>year = 2024, month = 1, day = 10\<rparr>
   \<and> get_consumption_since_date exact_python srv_500 \<lparr>year = 2024, month = 1, day = 10\<rparr>
        ''10.01.2024 05:30'' (PyInt 5) live =
       Some (Inr (JObj [(''timestamp'', JStr ''10.01.2024 05:30''), (''consumption'', JNum 5)]),
             live)
   \<and> get_consumption_since_date_sync exact_python srv_500 \<lparr>year = 2024, month = 1, day = 10\<rparr>
        ''10.01.2024 05:30'' (PyInt 5) live =
       Some (Inr (''10.01.2024 05:30'', PyInt 5), live)"
proof -
  have p: "strptime exact_python ''10.01.2024 05:30'' ''%d.%m.%Y %H:%M'' =
     Inr \<lparr>year = 2024, month = 1, day = 10, hour = 5, minute = 30, second = 0\<rparr>"
    by code_simp
  have d: "date_of \<lparr>year = 2024, month = 1, day = 10, hour = 5, minute = 30, second = 0\<rparr> =
     \<lparr>year = 2024, month = 1, day = 10\<rparr>"
    by (simp add: date_of_def)
  from same_day_returns_offset[OF p d, of srv_500 "PyInt 5" live] p d show ?thesis
    by (simp add: result_dict_def json_of_number_def)
qed

section \<open>Consumption aggregator: buckets without a value\<close>

text \<open>
  C3. The claim: every summation of \<open>get_consumption_since_date\<close> leaves out the buckets
  without a value and raises nothing, the one over the day series included. The code:
  the sums over the month and the year series test \<open>value[1] is not None\<close>, the loop
  over the day series does not, and \<open>energy_sum += None\<close> is a \<open>TypeError\<close>. With the input
  \<open>10.01.2024 05:30\<close> and a day series whose 06:00 bucket has no value, both clients
  raise it.
\<close>

theorem null_in_day_series_raises:
  "map_option fst
     (get_consumption_since_date exact_python srv_null_day
        \<lparr>year = 2024, month = 3, day = 5\<rparr> ''10.01.2024 05:30'' (PyInt 0) live)
     = Some (Inl TypeError)
   \<and> map_option fst
     (get_consumption_since_date_sync exact_python srv_null_day_sync
        \<lparr>year = 2024, month = 3, day = 5\<rparr> ''10.01.2024 05:30'' (PyInt 0) live)
     = Some (Inl TypeError)"
  by code_simp

section \<open>Consumption aggregator: a whole call\<close>

text \<open>
  A call of \<open>get_consumption_since_date\<close> that is not cut short, step by step, for the
  asynchronous and for the synchronous client.
\<close>

lemma since_date_run:
  assumes "strptime lib input_date_string ''%d.%m.%Y %H:%M'' = Inr input_date"
    and "current_date \<noteq> date_of input_date"
    and "get_consumption_per_day srv (strftime lib (date_of input_date) ''%Y-%m-%d'') s
           = Some (Inr day_data, s1)"
    and "day_loop lib input_date day_data (PyInt 0) = Inr sum1"
    and "get_consumption_for_month srv (year input_date) (month input_date) s1
           = Some (Inr month_data, s2)"
    and "add_sum_not_none lib sum1 (py_slice_from month_data (day input_date)) = Inr sum2"
    and "get_consumption_for_year srv (year input_date) s2 = Some (Inr year_data, s3)"
    and "add_sum_not_none lib sum2
           (py_slice year_data (month input_date) (end_index input_date current_date))
           = Inr sum3"
    and "(if year input_date \<noteq> year current_date then
            years_loop lib srv [start_year input_date current_date..year current_date] sum3 s3
          else Some (Inr sum3, s3)) = Some (Inr energy_sum, s4)"
    and "number_add lib energy_sum offset = Inr consumption"
  shows "get_consumption_since_date lib srv current_date input_date_string offset s =
           Some (Inr (result_dict (strftime lib current_date ''%d.%m.%Y %H:%M'') consumption),
                 s4)"
  unfolding get_consumption_since_date_def
  by (simp only: assms sum.case option.case prod.case if_False)

lemma since_date_sync_run:
  assumes "strptime lib input_date_string ''%d.%m.%Y %H:%M'' = Inr input_date"
    and "current_date \<noteq> date_of input_date"
    and "get_consumption_per_day_sync srv (strftime lib (date_of input_date) ''%Y-%m-%d'') s
           = Some (Inr day_data, s1)"
    and "day_loop lib input_date day_data (PyInt 0) = Inr sum1"
    and "get_consumption_for_month_sync srv (year input_date) (month input_date) s1
           = Some (Inr month_data, s2)"
    and "add_sum_not_none lib sum1 (py_slice_from month_data (day input_date)) = Inr sum2"
    and "get_consumption_for_year_sync srv (year input_date) s2 = Some (Inr year_data, s3)"
    and "add_sum_not_none lib sum2
           (py_slice year_data (month input_date) (end_index input_date current_date))
           = Inr sum3"
    and "(if year input_date \<noteq> year current_date then
            years_loop_sync lib srv [start_year input_date current_date..year current_date]
              sum3 s3
          else Some (Inr sum3, s3)) = Some (Inr energy_sum, s4)"
    and "number_add lib energy_sum offset = Inr consumption"
  shows "get_consumption_since_date_sync lib srv current_date input_date_string offset s =
           Some (Inr (strftime lib current_date ''%d.%m.%Y %H:%M'', consumption), s4)"
  unfolding get_consumption_since_date_sync_def
  by (simp only: assms sum.case option.case prod.case if_False)

section \<open>Consumption aggregator: the remainder of the day\<close>

lemma day_loop_adds_later_buckets:
  assumes "\<forall>(time, consumption) \<in> set day_data.
             \<not> isl (strptime_iso lib time)
             \<and> (after lib input_date time \<longrightarrow> is_number consumption)"
  shows "day_loop lib input_date day_data energy_sum =
           add_all lib energy_sum
             [numeric consumption. (time, consumption) \<leftarrow> day_data, after lib input_date time]"
  using assms
proof (induction day_data arbitrary: energy_sum)
  case Nil
  show ?case by simp
next
  case (Cons bucket rest)
  obtain time consumption where b: "bucket = (time, consumption)" by (cases bucket)
  from Cons.prems b obtain formatted_time where p: "strptime_iso lib time = Inr formatted_time"
    by (cases "strptime_iso lib time") auto
  from Cons.prems have rest: "\<forall>(time, consumption) \<in> set rest.
             \<not> isl (strptime_iso lib time)
             \<and> (after lib input_date time \<longrightarrow> is_number consumption)"
    by simp
  show ?case
  proof (cases "datetime_less input_date formatted_time")
    case True
    with p have a: "after lib input_date time" by (simp add: after_def)
    with Cons.prems b have n: "is_number consumption" by simp
    show ?thesis
    proof (cases "number_add lib energy_sum (numeric consumption)")
      case (Inl e)
      with b p True n a show ?thesis by (simp add: py_add_def)
    next
      case (Inr energy_sum')
      with b p True n a show ?thesis by (simp add: py_add_def Cons.IH[OF rest])
    qed
  next
    case False
    with p have a: "\<not> after lib input_date time" by (simp add: after_def)
    from b p False a show ?thesis by (simp add: Cons.IH[OF rest])
  qed
qed

text \<open>
  C4. The intra-day remainder of \<open>get_consumption_since_date\<close> is the sum of exactly
  those buckets of the day series whose timestamp is strictly after the input
  timestamp. Stated on a whole call of either client: when the timestamps of the day
  series that the accessor returns all parse and its buckets after the input time carry
  numbers, the consumption returned is what results from adding, starting from 0, the
  values of those buckets one after the other (\<open>day_sum\<close>), then the sums over the month
  and the year series, the later years and the offset. No other bucket of the day series
  enters. For the series \<open>[("2024-01-10T05:00:00", 2), ("2024-01-10T06:00:00", 3)]\<close> and the
  input \<open>10.01.2024 05:30\<close> only the 06:00 bucket counts: \<open>day_sum\<close> is 3. A bucket stamped
  05:30:00, the input time itself, would not count.
\<close>

theorem intra_day_remainder:
  assumes parse: "strptime lib input_date_string ''%d.%m.%Y %H:%M'' = Inr input_date"
    and not_today: "current_date \<noteq> date_of input_date"
    and stamps: "\<forall>(time, consumption) \<in> set day_data.
                   \<not> isl (strptime_iso lib time)
                   \<and> (after lib input_date time \<longrightarrow> is_number consumption)"
    and day_part: "add_all lib (PyInt 0)
                     [numeric consumption.
                        (time, consumption) \<leftarrow> day_data, after lib input_date time]
                     = Inr day_sum"
    and month_part: "add_sum_not_none lib day_sum (py_slice_from month_data (day input_date))
                       = Inr sum2"
    and year_part: "add_sum_not_none lib sum2
                      (py_slice year_data (month input_date)
                         (end_index input_date current_date)) = Inr sum3"
    and total: "number_add lib energy_sum offset = Inr consumption"
  shows "(get_consumption_per_day srv (strftime lib (date_of input_date) ''%Y-%m-%d'') s
            = Some (Inr day_data, s1)
          \<and> get_consumption_for_month srv (year input_date) (month input_date) s1
            = Some (Inr month_data, s2)
          \<and> get_consumption_for_year srv (year input_date) s2 = Some (Inr year_data, s3)
          \<and> (if year input_date \<noteq> year current_date then
                years_loop lib srv [start_year input_date current_date..year current_date]
                  sum3 s3
              else Some (Inr sum3, s3)) = Some (Inr energy_sum, s4)
          \<longrightarrow> get_consumption_since_date lib srv current_date input_date_string offset s =
                Some (Inr (result_dict (strftime lib current_date ''%d.%m.%Y %H:%M'')
                             consumption), s4))
       \<and> (get_consumption_per_day_sync srv (strftime lib (date_of input_date) ''%Y-%m-%d'') s
            = Some (Inr day_data, s1)
          \<and> get_consumption_for_month_sync srv (year input_date) (month input_date) s1
            = Some (Inr month_data, s2)
          \<and> get_consumption_for_year_sync srv (year input_date) s2 = Some (Inr year_data, s3)
          \<and> (if year input_date \<noteq> year current_date then
                years_loop_sync lib srv [start_year input_date current_date..year current_date]
                  sum3 s3
              else Some (Inr sum3, s3)) = Some (Inr energy_sum, s4)
          \<longrightarrow> get_consumption_since_date_sync lib srv current_date input_date_string offset s =
                Some (Inr (strftime lib current_date ''%d.%m.%Y %H:%M'', consumption), s4))"
proof -
  from day_loop_adds_later_buckets[OF stamps, of "PyInt 0"] day_part
  have dl: "day_loop lib input_date day_data (PyInt 0) = Inr day_sum" by simp
  show ?thesis
  proof (intro conjI impI)
    assume "get_consumption_per_day srv (strftime lib (date_of input_date) ''%Y-%m-%d'') s
            = Some (Inr day_data, s1)
          \<and> get_consumption_for_month srv (year input_date) (month input_date) s1
            = Some (Inr month_data, s2)
          \<and> get_consumption_for_year srv (year input_date) s2 = Some (Inr year_data, s3)
          \<and> (if year input_date \<noteq> year current_date then
                years_loop lib srv [start_year input_date current_date..year current_date]
                  sum3 s3
              else Some (Inr sum3, s3)) = Some (Inr energy_sum, s4)"
    then show "get_consumption_since_date lib srv current_date input_date_string offset s =
                Some (Inr (result_dict (strftime lib current_date ''%d.%m.%Y %H:%M'')
                             consumption), s4)"
      using since_date_run[OF parse not_today _ dl _ month_part _ year_part _ total] by blast
  next
    assume "get_consumption_per_day_sync srv (strftime lib (date_of input_date) ''%Y-%m-%d'') s
            = Some (Inr day_data, s1)
          \<and> get_consumption_for_month_sync srv (year input_date) (month input_date) s1
            = Some (Inr month_data, s2)
          \<and> get_consumption_for_year_sync srv (year input_date) s2 = Some (Inr year_data, s3)
          \<and> (if year input_date \<noteq> year current_date then
                years_loop_sync lib srv [start_year input_date current_date..year current_date]
                  sum3 s3
              else Some (Inr sum3, s3)) = Some (Inr energy_sum, s4)"
    then show "get_consumption_since_date_sync lib srv current_date input_date_string offset s =
                Some (Inr (strftime lib current_date ''%d.%m.%Y %H:%M'', consumption), s4)"
      using since_date_sync_run[OF parse not_today _ dl _ month_part _ year_part _ total]
      by blast
  qed
qed

theorem intra_day_remainder_witness:
  "strptime exact_python ''10.01.2024 05:30'' ''%d.%m.%Y %H:%M'' =
     Inr \<lparr>year = 2024, month = 1, day = 10, hour = 5, minute = 30, second = 0\<rparr>
   \<and> after exact_python
         \<lparr>year = 2024, month = 1, day = 10, hour = 5, minute = 30, second = 0\<rparr>
         (JStr ''2024-01-10T05:00:00'') = False
   \<and> after exact_python
         \<lparr>year = 2024, month = 1, day = 10, hour = 5, minute = 30, second = 0\<rparr>
         (JStr ''2024-01-10T05:30:00'') = False
   \<and> after exact_python
         \<lparr>year = 2024, month = 1, day = 10, hour = 5, minute = 30, second = 0\<rparr>
         (JStr ''2024-01-10T06:00:00'') = True
   \<and> add_all exact_python (PyInt 0)
         [numeric consumption.
            (time, consumption) \<leftarrow> day_series_example,
            after exact_python
              \<lparr>year = 2024, month = 1, day = 10, hour = 5, minute = 30, second = 0\<rparr> time]
       = Inr (PyInt 3)
   \<and> get_consumption_per_day srv_three ''2024-01-10'' live =
       Some (Inr day_series_example, live\<lparr>sent := [sent_day]\<rparr>)
   \<and> get_consumption_since_date exact_python srv_three \<lparr>year = 2024, month = 3, day = 5\<rparr>
         ''10.01.2024 05:30'' (PyInt 5) live =
       Some (Inr (JObj [(''timestamp'', JStr ''05.03.2024 00:00''), (''consumption'', JNum 32)]),
             live\<lparr>sent := [sent_day, sent_month, sent_year]\<rparr>)
   \<and> get_consumption_per_day_sync srv_three_sync ''2024-01-10'' live =
       Some (Inr day_series_example, live\<lparr>sent := [sent_day]\<rparr>)
   \<and> get_consumption_since_date_sync exact_python srv_three_sync
         \<lparr>year = 2024, month = 3, day = 5\<rparr> ''10.01.2024 05:30'' (PyInt 5) live =
       Some (Inr (''05.03.2024 00:00'', PyInt 32),
             live\<lparr>sent := [sent_day, sent_month, sent_year]\<rparr>)"
proof -
  let ?input = "\<lparr>year = 2024, month = 1, day = 10, hour = 5, minute = 30, second = 0\<rparr>"
  let ?today = "\<lparr>year = 2024, month = 3, day = 5\<rparr>"
  let ?s1 = "live\<lparr>sent := [sent_day]\<rparr>"
  let ?s2 = "live\<lparr>sent := [sent_day, sent_month]\<rparr>"
  let ?s3 = "live\<lparr>sent := [sent_day, sent_month, sent_year]\<rparr>"
  have parse: "strptime exact_python ''10.01.2024 05:30'' ''%d.%m.%Y %H:%M'' = Inr ?input"
    by code_simp
  have not_today: "?today \<noteq> date_of ?input" by (simp add: date_of_def)
  have a1: "after exact_python ?input (JStr ''2024-01-10T05:00:00'') = False" by code_simp
  have a2: "after exact_python ?input (JStr ''2024-01-10T06:00:00'') = True" by code_simp
  have a3: "after exact_python ?input (JStr ''2024-01-10T05:30:00'') = False" by code_simp
  have stamps: "\<forall>(time, consumption) \<in> set day_series_example.
                  \<not> isl (strptime_iso exact_python time)
                  \<and> (after exact_python ?input time \<longrightarrow> is_number consumption)"
    by code_simp
  have day_part: "add_all exact_python (PyInt 0)
         [numeric consumption.
            (time, consumption) \<leftarrow> day_series_example, after exact_python ?input time]
       = Inr (PyInt 3)"
    by code_simp
  have month_part: "add_sum_not_none exact_python (PyInt 3)
                      (py_slice_from month_series_example (day ?input)) = Inr (PyInt 7)"
    by code_simp
  have year_part: "add_sum_not_none exact_python (PyInt 7)
                     (py_slice year_series_example (month ?input) (end_index ?input ?today))
                     = Inr (PyInt 27)"
    by code_simp
  have total: "number_add exact_python (PyInt 27) (PyInt 5) = Inr (PyInt 32)" by code_simp
  have ymd: "strftime exact_python (date_of ?input) ''%Y-%m-%d'' = ''2024-01-10''"
    by code_simp
  have stamp: "strftime exact_python ?today ''%d.%m.%Y %H:%M'' = ''05.03.2024 00:00''"
    by code_simp
  have d: "get_consumption_per_day srv_three ''2024-01-10'' live
             = Some (Inr day_series_example, ?s1)"
    by code_simp
  have m: "get_consumption_for_month srv_three (year ?input) (month ?input) ?s1
             = Some (Inr month_series_example, ?s2)"
    by code_simp
  have y: "get_consumption_for_year srv_three (year ?input) ?s2
             = Some (Inr year_series_example, ?s3)"
    by code_simp
  have later: "(if year ?input \<noteq> year ?today then
                  years_loop exact_python srv_three [start_year ?input ?today..year ?today]
                    (PyInt 27) ?s3
                else Some (Inr (PyInt 27), ?s3)) = Some (Inr (PyInt 27), ?s3)"
    by simp
  have ds: "get_consumption_per_day_sync srv_three_sync ''2024-01-10'' live
              = Some (Inr day_series_example, ?s1)"
    by code_simp
  have ms: "get_consumption_for_month_sync srv_three_sync (year ?input) (month ?input) ?s1
              = Some (Inr month_series_example, ?s2)"
    by code_simp
  have ys: "get_consumption_for_year_sync srv_three_sync (year ?input) ?s2
              = Some (Inr year_series_example, ?s3)"
    by code_simp
  have laters: "(if year ?input \<noteq> year ?today then
                  years_loop_sync exact_python srv_three_sync
                    [start_year ?input ?today..year ?today] (PyInt 27) ?s3
                else Some (Inr (PyInt 27), ?s3)) = Some (Inr (PyInt 27), ?s3)"
    by simp
  note run = intra_day_remainder[OF parse not_today stamps day_part month_part year_part total]
  from run[THEN conjunct1, THEN mp, OF conjI[OF d[folded ymd] conjI[OF m conjI[OF y later]]]]
  have async: "get_consumption_since_date exact_python srv_three ?today
                 ''10.01.2024 05:30'' (PyInt 5) live =
       Some (Inr (JObj [(''timestamp'', JStr ''05.03.2024 00:00''), (''consumption'', JNum 32)]),
             ?s3)"
    by (simp add: stamp result_dict_def json_of_number_def)
  from run[THEN conjunct2, THEN mp,
      OF conjI[OF ds[folded ymd] conjI[OF ms conjI[OF ys laters]]]]
  have sync: "get_consumption_since_date_sync exact_python srv_three_sync ?today
                ''10.01.2024 05:30'' (PyInt 5) live =
       Some (Inr (''05.03.2024 00:00'', PyInt 32), ?s3)"
    by (simp add: stamp)
  from parse a1 a2 a3 day_part d async ds sync show ?thesis by blast
qed

section \<open>Consumption aggregator: the remainders of the month and the year\<close>

lemma slice_as_nth:
  "take k (drop a xs) = map ((!) xs) [a..<min (length xs) (a + k)]"
proof -
  have "take k (drop a xs) = take k (drop a (map ((!) xs) [0..<length xs]))"
    by (simp add: map_nth)
  also have "\<dots> = map ((!) xs) (take k [a..<length xs])"
    by (simp add: drop_map take_map)
  also have "take k [a..<length xs] = [a..<min (length xs) (a + k)]"
    by (cases "a + k \<le> length xs") (simp_all add: min_def)
  finally show ?thesis .
qed

lemma py_slice_from_nth:
  assumes "0 \<le> start"
  shows "py_slice_from xs start = map ((!) xs) [nat start..<length xs]"
proof -
  have "drop (min (nat start) (length xs)) xs = drop (nat start) xs"
    by (cases "nat start \<le> length xs") (simp_all add: min_def)
  moreover have "drop (nat start) xs = take (length xs) (drop (nat start) xs)" by simp
  ultimately show ?thesis
    using assms slice_as_nth[of "length xs" "nat start" xs]
    by (simp add: py_slice_from_def slice_index_def)
qed

lemma py_slice_nth:
  assumes "0 \<le> start" and "0 \<le> stop"
  shows "py_slice xs start stop = map ((!) xs) [nat start..<min (length xs) (nat stop)]"
proof -
  let ?n = "length xs"
  let ?lo = "min (nat start) ?n" and ?hi = "min (nat stop) ?n"
  from assms have "py_slice xs start stop = take (?hi - ?lo) (drop ?lo xs)"
    by (simp add: py_slice_def slice_index_def Let_def)
  also have "\<dots> = map ((!) xs) [?lo..<min ?n (?lo + (?hi - ?lo))]"
    by (rule slice_as_nth)
  also have "[?lo..<min ?n (?lo + (?hi - ?lo))] = [nat start..<min ?n (nat stop)]"
    by (cases "nat start \<le> ?n"; cases "nat stop \<le> ?n"; cases "nat start \<le> nat stop")
       (simp_all add: min_def)
  finally show ?thesis .
qed

lemma sum_not_none_range:
  assumes "\<forall>i \<in> {a..<b}. snd (xs ! i) = JNull \<or> is_number (snd (xs ! i))"
  shows "sum_not_none lib (map ((!) xs) [a..<b]) =
           number_sum lib (map numeric (bucket_values xs a b))"
proof -
  have vs: "[snd bucket. bucket \<leftarrow> map ((!) xs) [a..<b], snd bucket \<noteq> JNull]
              = bucket_values xs a b"
    by (simp add: bucket_values_def comp_def)
  from assms have "list_all is_number (bucket_values xs a b)"
    by (auto simp: bucket_values_def list_all_iff)
  then show ?thesis unfolding sum_not_none_def vs py_sum_def by simp
qed

text \<open>
  C5. In \<open>get_consumption_since_date\<close> the remainder of the month is the sum of the
  buckets of the month series from index \<open>input_date.day\<close> on, and the remainder of the
  year is the sum of the buckets of the year series from index \<open>input_date.month\<close> up to,
  not including, index 12, or index \<open>current_date.month - 1\<close> when the input's year is the
  current year; buckets without a value are left out. Stated on a whole call of either
  client: when the accessors return the series \<open>day_data\<close>, \<open>month_data\<close> and \<open>year_data\<close>
  and the buckets in these two ranges carry numbers or nothing, the consumption
  returned is what results from adding to the day's part \<open>sum(...)\<close> of the month's
  buckets in the first range, then \<open>sum(...)\<close> of the year's buckets in the second range,
  then the later years and the offset.
\<close>

theorem month_and_year_remainder:
  assumes parse: "strptime lib input_date_string ''%d.%m.%Y %H:%M'' = Inr input_date"
    and not_today: "current_date \<noteq> date_of input_date"
    and calendar: "1 \<le> day input_date \<and> 1 \<le> month input_date \<and> 1 \<le> month current_date"
    and day_part: "day_loop lib input_date day_data (PyInt 0) = Inr sum1"
    and month_values: "\<forall>i \<in> {nat (day input_date)..<length month_data}.
                         snd (month_data ! i) = JNull \<or> is_number (snd (month_data ! i))"
    and month_part: "number_sum lib
                       (map numeric
                          (bucket_values month_data (nat (day input_date)) (length month_data)))
                       = Inr month_sum"
    and after_month: "number_add lib sum1 month_sum = Inr sum2"
    and year_values: "\<forall>i \<in> {nat (month input_date)..<
                          min (length year_data)
                            (nat (if year input_date = year current_date
                                  then month current_date - 1 else 12))}.
                         snd (year_data ! i) = JNull \<or> is_number (snd (year_data ! i))"
    and year_part: "number_sum lib
                      (map numeric
                         (bucket_values year_data (nat (month input_date))
                            (min (length year_data)
                               (nat (if year input_date = year current_date
                                     then month current_date - 1 else 12)))))
                      = Inr year_sum"
    and after_year: "number_add lib sum2 year_sum = Inr sum3"
    and total: "number_add lib energy_sum offset = Inr consumption"
  shows "(get_consumption_per_day srv (strftime lib (date_of input_date) ''%Y-%m-%d'') s
            = Some (Inr day_data, s1)
          \<and> get_consumption_for_month srv (year input_date) (month input_date) s1
            = Some (Inr month_data, s2)
          \<and> get_consumption_for_year srv (year input_date) s2 = Some (Inr year_data, s3)
          \<and> (if year input_date \<noteq> year current_date then
                years_loop lib srv [start_year input_date current_date..year current_date]
                  sum3 s3
              else Some (Inr sum3, s3)) = Some (Inr energy_sum, s4)
          \<longrightarrow> get_consumption_since_date lib srv current_date input_date_string offset s =
                Some (Inr (result_dict (strftime lib current_date ''%d.%m.%Y %H:%M'')
                             consumption), s4))
       \<and> (get_consumption_per_day_sync srv (strftime lib (date_of input_date) ''%Y-%m-%d'') s
            = Some (Inr day_data, s1)
          \<and> get_consumption_for_month_sync srv (year input_date) (month input_date) s1
            = Some (Inr month_data, s2)
          \<and> get_consumption_for_year_sync srv (year input_date) s2 = Some (Inr year_data, s3)
          \<and> (if year input_date \<noteq> year current_date then
                years_loop_sync lib srv [start_year input_date current_date..year current_date]
                  sum3 s3
              else Some (Inr sum3, s3)) = Some (Inr energy_sum, s4)
          \<longrightarrow> get_consumption_since_date_sync lib srv current_date input_date_string offset s =
                Some (Inr (strftime lib current_date ''%d.%m.%Y %H:%M'', consumption), s4))"
proof -
  let ?stop = "if year input_date = year current_date then month current_date - 1 else 12"
  from calendar have d0: "0 \<le> day input_date" and m0: "0 \<le> month input_date"
    and e0: "0 \<le> ?stop" by simp_all
  have stop: "end_index input_date current_date = ?stop" by (simp add: end_index_def)
  have ms: "add_sum_not_none lib sum1 (py_slice_from month_data (day input_date)) = Inr sum2"
    unfolding add_sum_not_none_def py_slice_from_nth[OF d0]
      sum_not_none_range[OF month_values] month_part
    using after_month by simp
  have ys: "add_sum_not_none lib sum2
              (py_slice year_data (month input_date) (end_index input_date current_date))
              = Inr sum3"
    unfolding add_sum_not_none_def stop py_slice_nth[OF m0 e0]
      sum_not_none_range[OF year_values] year_part
    using after_year by simp
  show ?thesis
  proof (intro conjI impI)
    assume "get_consumption_per_day srv (strftime lib (date_of input_date) ''%Y-%m-%d'') s
            = Some (Inr day_data, s1)
          \<and> get_consumption_for_month srv (year input_date) (month input_date) s1
            = Some (Inr month_data, s2)
          \<and> get_consumption_for_year srv (year input_date) s2 = Some (Inr year_data, s3)
          \<and> (if year input_date \<noteq> year current_date then
                years_loop lib srv [start_year input_date current_date..year current_date]
                  sum3 s3
              else Some (Inr sum3, s3)) = Some (Inr energy_sum, s4)"
    then show "get_consumption_since_date lib srv current_date input_date_string offset s =
                Some (Inr (result_dict (strftime lib current_date ''%d.%m.%Y %H:%M'')
                             consumption), s4)"
      using since_date_run[OF parse not_today _ day_part _ ms _ ys _ total] by blast
  next
    assume "get_consumption_per_day_sync srv (strftime lib (date_of input_date) ''%Y-%m-%d'') s
            = Some (Inr day_data, s1)
          \<and> get_consumption_for_month_sync srv (year input_date) (month input_date) s1
            = Some (Inr month_data, s2)
          \<and> get_consumption_for_year_sync srv (year input_date) s2 = Some (Inr year_data, s3)
          \<and> (if year input_date \<noteq> year current_date then
                years_loop_sync lib srv [start_year input_date current_date..year current_date]
                  sum3 s3
              else Some (Inr sum3, s3)) = Some (Inr energy_sum, s4)"
    then show "get_consumption_since_date_sync lib srv current_date input_date_string offset s =
                Some (Inr (strftime lib current_date ''%d.%m.%Y %H:%M'', consumption), s4)"
      using since_date_sync_run[OF parse not_today _ day_part _ ms _ ys _ total] by blast
  qed
qed

theorem month_and_year_remainder_witness:
  "strptime exact_python ''10.01.2024 05:30'' ''%d.%m.%Y %H:%M'' =
     Inr \<lparr>year = 2024, month = 1, day = 10, hour = 5, minute = 30, second = 0\<rparr>
   \<and> bucket_values month_series_example 10 (length month_series_example) = [JNum 4]
   \<and> bucket_values year_series_example 1 (min (length year_series_example) 12)
       = [JNum 20, JNum 30]
   \<and> get_consumption_for_month srv_three 2024 1 (live\<lparr>sent := [sent_day]\<rparr>) =
       Some (Inr month_series_example, live\<lparr>sent := [sent_day, sent_month]\<rparr>)
   \<and> get_consumption_for_year srv_three 2024 (live\<lparr>sent := [sent_day, sent_month]\<rparr>) =
       Some (Inr year_series_example, live\<lparr>sent := [sent_day, sent_month, sent_year]\<rparr>)
   \<and> get_consumption_since_date exact_python srv_three \<lparr>year = 2025, month = 2, day = 3\<rparr>
         ''10.01.2024 05:30'' (PyInt 5) live =
       Some (Inr (JObj [(''timestamp'', JStr ''03.02.2025 00:00''),
                        (''consumption'', JNum 122)]),
             live\<lparr>sent := [sent_day, sent_month, sent_year, sent_next_year]\<rparr>)
   \<and> get_consumption_for_month_sync srv_three_sync 2024 1 (live\<lparr>sent := [sent_day]\<rparr>) =
       Some (Inr month_series_example, live\<lparr>sent := [sent_day, sent_month]\<rparr>)
   \<and> get_consumption_for_year_sync srv_three_sync 2024
         (live\<lparr>sent := [sent_day, sent_month]\<rparr>) =
       Some (Inr year_series_example, live\<lparr>sent := [sent_day, sent_month, sent_year]\<rparr>)
   \<and> get_consumption_since_date_sync exact_python srv_three_sync
         \<lparr>year = 2025, month = 2, day = 3\<rparr> ''10.01.2024 05:30'' (PyInt 5) live =
       Some (Inr (''03.02.2025 00:00'', PyInt 122),
             live\<lparr>sent := [sent_day, sent_month, sent_year, sent_next_year]\<rparr>)"
proof -
  let ?input = "\<lparr>year = 2024, month = 1, day = 10, hour = 5, minute = 30, second = 0\<rparr>"
  let ?today = "\<lparr>year = 2025, month = 2, day = 3\<rparr>"
  let ?s1 = "live\<lparr>sent := [sent_day]\<rparr>"
  let ?s2 = "live\<lparr>sent := [sent_day, sent_month]\<rparr>"
  let ?s3 = "live\<lparr>sent := [sent_day, sent_month, sent_year]\<rparr>"
  let ?s4 = "live\<lparr>sent := [sent_day, sent_month, sent_year, sent_next_year]\<rparr>"
  let ?stop = "if year ?input = year ?today then month ?today - 1 else 12"
  have parse: "strptime exact_python ''10.01.2024 05:30'' ''%d.%m.%Y %H:%M'' = Inr ?input"
    by code_simp
  have not_today: "?today \<noteq> date_of ?input" by (simp add: date_of_def)
  have calendar: "1 \<le> day ?input \<and> 1 \<le> month ?input \<and> 1 \<le> month ?today" by simp
  have day_part: "day_loop exact_python ?input day_series_example (PyInt 0) = Inr (PyInt 3)"
    by code_simp
  have vm: "bucket_values month_series_example 10 (length month_series_example) = [JNum 4]"
    by code_simp
  have vy: "bucket_values year_series_example 1 (min (length year_series_example) 12)
              = [JNum 20, JNum 30]"
    by code_simp
  have month_values: "\<forall>i \<in> {nat (day ?input)..<length month_series_example}.
        snd (month_series_example ! i) = JNull \<or> is_number (snd (month_series_example ! i))"
    by code_simp
  have month_part: "number_sum exact_python
        (map numeric
           (bucket_values month_series_example (nat (day ?input))
              (length month_series_example))) = Inr (PyInt 4)"
    by code_simp
  have after_month: "number_add exact_python (PyInt 3) (PyInt 4) = Inr (PyInt 7)"
    by code_simp
  have year_values: "\<forall>i \<in> {nat (month ?input)..<
                          min (length year_series_example) (nat ?stop)}.
        snd (year_series_example ! i) = JNull \<or> is_number (snd (year_series_example ! i))"
    by code_simp
  have year_part: "number_sum exact_python
        (map numeric
           (bucket_values year_series_example (nat (month ?input))
              (min (length year_series_example) (nat ?stop)))) = Inr (PyInt 50)"
    by code_simp
  have after_year: "number_add exact_python (PyInt 7) (PyInt 50) = Inr (PyInt 57)"
    by code_simp
  have total: "number_add exact_python (PyInt 117) (PyInt 5) = Inr (PyInt 122)"
    by code_simp
  have ymd: "strftime exact_python (date_of ?input) ''%Y-%m-%d'' = ''2024-01-10''"
    by code_simp
  have stamp: "strftime exact_python ?today ''%d.%m.%Y %H:%M'' = ''03.02.2025 00:00''"
    by code_simp
  have d: "get_consumption_per_day srv_three ''2024-01-10'' live
             = Some (Inr day_series_example, ?s1)"
    by code_simp
  have m: "get_consumption_for_month srv_three 2024 1 ?s1
             = Some (Inr month_series_example, ?s2)"
    by code_simp
  have y: "get_consumption_for_year srv_three 2024 ?s2 = Some (Inr year_series_example, ?s3)"
    by code_simp
  have later: "(if year ?input \<noteq> year ?today then
                  years_loop exact_python srv_three [start_year ?input ?today..year ?today]
                    (PyInt 57) ?s3
                else Some (Inr (PyInt 57), ?s3)) = Some (Inr (PyInt 117), ?s4)"
    by code_simp
  have ds: "get_consumption_per_day_sync srv_three_sync ''2024-01-10'' live
              = Some (Inr day_series_example, ?s1)"
    by code_simp
  have ms: "get_consumption_for_month_sync srv_three_sync 2024 1 ?s1
              = Some (Inr month_series_example, ?s2)"
    by code_simp
  have ys: "get_consumption_for_year_sync srv_three_sync 2024 ?s2
              = Some (Inr year_series_example, ?s3)"
    by code_simp
  have laters: "(if year ?input \<noteq> year ?today then
                  years_loop_sync exact_python srv_three_sync
                    [start_year ?input ?today..year ?today] (PyInt 57) ?s3
                else Some (Inr (PyInt 57), ?s3)) = Some (Inr (PyInt 117), ?s4)"
    by code_simp
  have m': "get_consumption_for_month srv_three (year ?input) (month ?input) ?s1
             = Some (Inr month_series_example, ?s2)"
    using m by simp
  have y': "get_consumption_for_year srv_three (year ?input) ?s2
             = Some (Inr year_series_example, ?s3)"
    using y by simp
  have ms': "get_consumption_for_month_sync srv_three_sync (year ?input) (month ?input) ?s1
              = Some (Inr month_series_example, ?s2)"
    using ms by simp
  have ys': "get_consumption_for_year_sync srv_three_sync (year ?input) ?s2
              = Some (Inr year_series_example, ?s3)"
    using ys by simp
  note run = month_and_year_remainder[OF parse not_today calendar day_part month_values
      month_part after_month year_values year_part after_year total]
  from run[THEN conjunct1, THEN mp, OF conjI[OF d[folded ymd] conjI[OF m' conjI[OF y' later]]]]
  have async: "get_consumption_since_date exact_python srv_three ?today
                 ''10.01.2024 05:30'' (PyInt 5) live =
       Some (Inr (JObj [(''timestamp'', JStr ''03.02.2025 00:00''),
                        (''consumption'', JNum 122)]), ?s4)"
    by (simp add: stamp result_dict_def json_of_number_def)
  from run[THEN conjunct2, THEN mp,
      OF conjI[OF ds[folded ymd] conjI[OF ms' conjI[OF ys' laters]]]]
  have sync: "get_consumption_since_date_sync exact_python srv_three_sync ?today
                ''10.01.2024 05:30'' (PyInt 5) live =
       Some (Inr (''03.02.2025 00:00'', PyInt 122), ?s4)"
    by (simp add: stamp)
  from parse vm vy m y async ms ys sync show ?thesis by blast
qed

section \<open>The two clients compared\<close>

lemma in_array_status [simp]: "status_code (in_array r) = status_code r"
  by (simp add: in_array_def)











lemma raise_for_status_in_array:
  "raise_for_status (map_option in_array response) = raise_for_status response"
  by (cases response) (simp_all add: raise_for_status_def)

lemma raise_for_status_error: "raise_for_status response = Inl e \<Longrightarrow>
    response = None \<or> (\<exists>r. response = Some r \<and> status_code r \<noteq> 200)"
  by (cases response) (auto simp: raise_for_status_def split: if_splits)
















end
